theory Spec2Isabelle
  imports Main "HOL-Library.Word"
begin

unbundle bit_operations_syntax

section \<open>HGSMI base: the guest side of the shared-memory command channel\<close>

text \<open>
  The development follows \<^verbatim>\<open>HGSMIBase.c\<close>. Port I/O, the command heap, the
  area mapper and the channel dispatcher live in headers and files outside this
  translation unit; each of them enters a definition as an argument, so that
  every theorem holds for whatever they do.

  The model is the release build: \<^verbatim>\<open>Assert\<close> and \<^verbatim>\<open>AssertRC\<close> do nothing,
  \<^verbatim>\<open>AssertReturnVoid\<close> returns when its condition fails, and logging has no
  effect.
\<close>

subsection \<open>Basic types and status codes\<close>

type_synonym HGSMIOFFSET = "32 word"
type_synonym HGSMISIZE = "32 word"
type_synonym status = "32 word"
type_synonym pointer = nat

text \<open>
  Modelled from the spec: \<^verbatim>\<open>HGSMIOFFSET_VOID\<close> is declared in a header that is
  not part of the sources; it is the reserved INVALID offset, all bits set.
\<close>
definition HGSMIOFFSET_VOID :: HGSMIOFFSET where
  "HGSMIOFFSET_VOID = 0xFFFFFFFF"

text \<open>
  Modelled from the spec: the bit of the shared flags word meaning that the host
  has queued commands; its declaration is outside the sources.
\<close>
definition HGSMIHOSTFLAGS_COMMANDS_PENDING :: "32 word" where
  "HGSMIHOSTFLAGS_COMMANDS_PENDING = 0x1"

text \<open>
  Modelled from the spec: the IPRT status codes and the macros that test them
  (\<^verbatim>\<open>iprt/err.h\<close> is not part of the sources). A status is a C \<^verbatim>\<open>int\<close>, 32
  bits read in two's complement with \<open>sint\<close>; success is zero or positive, and
  invalid argument, resource exhaustion, not implemented and internal error
  are distinct negative codes.
\<close>
definition VINF_SUCCESS :: status where "VINF_SUCCESS = 0"
definition VERR_INVALID_PARAMETER :: status where "VERR_INVALID_PARAMETER = - 2"
definition VERR_NO_MEMORY :: status where "VERR_NO_MEMORY = - 8"
definition VERR_NOT_IMPLEMENTED :: status where "VERR_NOT_IMPLEMENTED = - 12"
definition VERR_INTERNAL_ERROR :: status where "VERR_INTERNAL_ERROR = - 225"

definition RT_SUCCESS :: "status \<Rightarrow> bool" where
  "RT_SUCCESS rc = (0 \<le> sint rc)"

definition RT_FAILURE :: "status \<Rightarrow> bool" where
  "RT_FAILURE rc = (\<not> RT_SUCCESS rc)"

definition NULL :: pointer where "NULL = 0"

subsection \<open>The host command context\<close>

text \<open>
  \<^verbatim>\<open>HGSMIHOSTCOMMANDCONTEXT\<close> together with the port it owns. \<open>port_in\<close> holds
  the values that the coming reads of \<^verbatim>\<open>pCtx->port\<close> yield, \<open>port_out\<close> the
  values written to it so far, oldest first. The area and the channel table are
  kept abstract.
\<close>
record ('a, 'c) HGSMIHOSTCOMMANDCONTEXT =
  areaCtx :: 'a
  channels :: 'c
  fHostCmdProcessing :: bool
  port_in :: "HGSMIOFFSET list"
  port_out :: "HGSMIOFFSET list"

text \<open>
  \<^verbatim>\<open>HGSMIBufferProcess\<close> is not in the sources. It receives the context (its
  area and channels; a handler may also complete the command on it) and the
  offset, and returns a status and the context it leaves behind.
\<close>
type_synonym ('a, 'c) dispatcher =
  "('a, 'c) HGSMIHOSTCOMMANDCONTEXT \<Rightarrow> HGSMIOFFSET
     \<Rightarrow> status \<times> ('a, 'c) HGSMIHOSTCOMMANDCONTEXT"

text \<open>\<^verbatim>\<open>VBoxVideoCmnPortWriteUlong(pCtx->port, offt)\<close>.\<close>
definition HGSMINotifyHostCmdComplete ::
  "('a, 'c) HGSMIHOSTCOMMANDCONTEXT \<Rightarrow> HGSMIOFFSET \<Rightarrow> ('a, 'c) HGSMIHOSTCOMMANDCONTEXT" where
  "HGSMINotifyHostCmdComplete pCtx offt = pCtx\<lparr>port_out := port_out pCtx @ [offt]\<rparr>"

text \<open>
  \<^verbatim>\<open>HGSMIBufferHeaderFromData\<close> and \<^verbatim>\<open>HGSMIPointerToOffset\<close> are header
  inlines outside the sources; they are the arguments \<open>hdrFromData\<close> and
  \<open>ptrToOffset\<close>.
\<close>
definition VBoxHGSMIHostCmdComplete ::
  "(pointer \<Rightarrow> pointer) \<Rightarrow> ('a \<Rightarrow> pointer \<Rightarrow> HGSMIOFFSET)
     \<Rightarrow> ('a, 'c) HGSMIHOSTCOMMANDCONTEXT \<Rightarrow> pointer \<Rightarrow> ('a, 'c) HGSMIHOSTCOMMANDCONTEXT" where
  "VBoxHGSMIHostCmdComplete hdrFromData ptrToOffset pCtx pvMem =
     (let pHdr = hdrFromData pvMem;
          offMem = ptrToOffset (areaCtx pCtx) pHdr
      in if offMem \<noteq> HGSMIOFFSET_VOID
         then HGSMINotifyHostCmdComplete pCtx offMem
         else pCtx)"

definition hgsmiHostCmdProcess ::
  "('a, 'c) dispatcher \<Rightarrow> ('a, 'c) HGSMIHOSTCOMMANDCONTEXT \<Rightarrow> HGSMIOFFSET
     \<Rightarrow> ('a, 'c) HGSMIHOSTCOMMANDCONTEXT" where
  "hgsmiHostCmdProcess HGSMIBufferProcess pCtx offBuffer =
     (case HGSMIBufferProcess pCtx offBuffer of
        (rc, pCtx') \<Rightarrow>
          if RT_FAILURE rc
          then HGSMINotifyHostCmdComplete pCtx' offBuffer
          else pCtx')"

text \<open>
  Modelled from the spec: \<^verbatim>\<open>VBoxVideoCmnPortReadUlong\<close> is not in the sources.
  A read takes the next value the host has queued on the port; reading when
  nothing is pending yields the INVALID sentinel.
\<close>
definition hgsmiGetHostBuffer ::
  "('a, 'c) HGSMIHOSTCOMMANDCONTEXT \<Rightarrow> HGSMIOFFSET \<times> ('a, 'c) HGSMIHOSTCOMMANDCONTEXT" where
  "hgsmiGetHostBuffer pCtx =
     (case port_in pCtx of
        [] \<Rightarrow> (HGSMIOFFSET_VOID, pCtx)
      | v # rest \<Rightarrow> (v, pCtx\<lparr>port_in := rest\<rparr>))"

text \<open>\<^verbatim>\<open>AssertReturnVoid\<close> leaves the function when its condition fails.\<close>
definition hgsmiHostCommandQueryProcess ::
  "('a, 'c) dispatcher \<Rightarrow> ('a, 'c) HGSMIHOSTCOMMANDCONTEXT \<Rightarrow> ('a, 'c) HGSMIHOSTCOMMANDCONTEXT" where
  "hgsmiHostCommandQueryProcess HGSMIBufferProcess pCtx =
     (case hgsmiGetHostBuffer pCtx of
        (offset, pCtx') \<Rightarrow>
          if offset \<noteq> HGSMIOFFSET_VOID
          then hgsmiHostCmdProcess HGSMIBufferProcess pCtx' offset
          else pCtx')"

text \<open>
  Modelled from the spec: the atomic operations of \<^verbatim>\<open>iprt/asm.h\<close> on the
  reentrancy guard. The compare-and-swap stores \<open>fNew\<close> and reports success when
  the guard holds \<open>fOld\<close>, and otherwise changes nothing and reports failure.
\<close>
definition ASMAtomicCmpXchgBool ::
  "('a, 'c) HGSMIHOSTCOMMANDCONTEXT \<Rightarrow> bool \<Rightarrow> bool
     \<Rightarrow> bool \<times> ('a, 'c) HGSMIHOSTCOMMANDCONTEXT" where
  "ASMAtomicCmpXchgBool pCtx fNew fOld =
     (if fHostCmdProcessing pCtx = fOld
      then (True, pCtx\<lparr>fHostCmdProcessing := fNew\<rparr>)
      else (False, pCtx))"

definition ASMAtomicWriteBool ::
  "('a, 'c) HGSMIHOSTCOMMANDCONTEXT \<Rightarrow> bool \<Rightarrow> ('a, 'c) HGSMIHOSTCOMMANDCONTEXT" where
  "ASMAtomicWriteBool pCtx f = pCtx\<lparr>fHostCmdProcessing := f\<rparr>"

text \<open>
  The drain loop. The flags word \<^verbatim>\<open>pCtx->pfHostFlags->u32HostFlags\<close> is written
  by the host at any time, so the run takes as input the values that its
  successive reads of the word yield; each pass of the loop reads the word once.
  A host that keeps the pending bit set keeps the loop running: a run that has
  used up the given reads without leaving the loop has not returned, which is
  the result \<open>None\<close>.
\<close>
fun VBoxHGSMIProcessHostQueue ::
  "('a, 'c) dispatcher \<Rightarrow> 32 word list \<Rightarrow> ('a, 'c) HGSMIHOSTCOMMANDCONTEXT
     \<Rightarrow> ('a, 'c) HGSMIHOSTCOMMANDCONTEXT option" where
  "VBoxHGSMIProcessHostQueue HGSMIBufferProcess [] pCtx = None"
| "VBoxHGSMIProcessHostQueue HGSMIBufferProcess (u32HostFlags # reads) pCtx =
     (if u32HostFlags AND HGSMIHOSTFLAGS_COMMANDS_PENDING \<noteq> 0
      then (case ASMAtomicCmpXchgBool pCtx True False of
              (swapped, pCtx1) \<Rightarrow>
                if \<not> swapped then Some pCtx1
                else VBoxHGSMIProcessHostQueue HGSMIBufferProcess reads
                       (ASMAtomicWriteBool
                          (hgsmiHostCommandQueryProcess HGSMIBufferProcess pCtx1) False))
      else Some pCtx)"

subsection \<open>Shared memory\<close>

text \<open>
  Video RAM as a store of bytes. The guest is an x86 machine, so a 32-bit field
  is four bytes, least significant first.
\<close>
type_synonym memory = "pointer \<Rightarrow> 8 word"

definition read32 :: "memory \<Rightarrow> pointer \<Rightarrow> 32 word" where
  "read32 m a = ucast (m a) OR push_bit 8 (ucast (m (a + 1)))
                OR push_bit 16 (ucast (m (a + 2))) OR push_bit 24 (ucast (m (a + 3)))"

definition write32 :: "memory \<Rightarrow> pointer \<Rightarrow> 32 word \<Rightarrow> memory" where
  "write32 m a v = m(a := ucast v, a + 1 := ucast (drop_bit 8 v),
                     a + 2 := ucast (drop_bit 16 v), a + 3 := ucast (drop_bit 24 v))"

text \<open>\<^verbatim>\<open>memcpy(dst, src, n)\<close>, with \<open>src\<close> the bytes found behind the source pointer.\<close>
definition memcpy :: "memory \<Rightarrow> pointer \<Rightarrow> (nat \<Rightarrow> 8 word) \<Rightarrow> nat \<Rightarrow> memory" where
  "memcpy m dst src n = (\<lambda>a. if dst \<le> a \<and> a < dst + n then src (a - dst) else m a)"

text \<open>
  Modelled from the spec: the command structures, whose declarations
  (\<^verbatim>\<open>VBox/VBoxVideo.h\<close> and the HGSMI headers) are not part of the sources.
  Each is a fixed-size payload of 32-bit fields, lying in declaration order
  without padding; \<open>au8Data\<close> is the byte array that ends
  \<^verbatim>\<open>VBVAMOUSEPOINTERSHAPE\<close>. The fields \<^verbatim>\<open>rc\<close> and \<^verbatim>\<open>fCaps\<close> of
  \<^verbatim>\<open>VBVACAPS\<close> are \<open>caps_rc\<close> and \<open>caps_fCaps\<close> here, since \<open>rc\<close> and \<open>fCaps\<close>
  name variables throughout.
\<close>
datatype field =
    offLocation | cbLocation
  | caps_rc | caps_fCaps
  | u32HeapOffset | u32HeapSize
  | u32Index | u32Value
  | i32Result | fu32Flags | u32HotX | u32HotY | u32Width | u32Height | au8Data

fun offsetof :: "field \<Rightarrow> nat" where
  "offsetof offLocation = 0"
| "offsetof cbLocation = 4"
| "offsetof caps_rc = 0"
| "offsetof caps_fCaps = 4"
| "offsetof u32HeapOffset = 0"
| "offsetof u32HeapSize = 4"
| "offsetof u32Index = 0"
| "offsetof u32Value = 4"
| "offsetof i32Result = 0"
| "offsetof fu32Flags = 4"
| "offsetof u32HotX = 8"
| "offsetof u32HotY = 12"
| "offsetof u32Width = 16"
| "offsetof u32Height = 20"
| "offsetof au8Data = 24"

definition sizeof_HGSMIBUFFERLOCATION :: HGSMISIZE where "sizeof_HGSMIBUFFERLOCATION = 8"
definition sizeof_HGSMIHOSTFLAGS :: HGSMISIZE where "sizeof_HGSMIHOSTFLAGS = 16"
definition sizeof_VBVACAPS :: HGSMISIZE where "sizeof_VBVACAPS = 8"
definition sizeof_VBVAINFOHEAP :: HGSMISIZE where "sizeof_VBVAINFOHEAP = 8"
definition sizeof_VBVACONF32 :: HGSMISIZE where "sizeof_VBVACONF32 = 8"
definition sizeof_VBVAMOUSEPOINTERSHAPE :: HGSMISIZE where "sizeof_VBVAMOUSEPOINTERSHAPE = 28"

text \<open>
  Modelled from the spec: channel numbers, command codes and flag bits of the
  same headers. The channels and command codes only travel to the allocator.
\<close>
definition HGSMI_CH_HGSMI :: "8 word" where "HGSMI_CH_HGSMI = 1"
definition HGSMI_CH_VBVA :: "8 word" where "HGSMI_CH_VBVA = 2"
definition HGSMI_CC_HOST_FLAGS_LOCATION :: "16 word" where "HGSMI_CC_HOST_FLAGS_LOCATION = 0"
definition VBVA_QUERY_CONF32 :: "16 word" where "VBVA_QUERY_CONF32 = 1"
definition VBVA_INFO_HEAP :: "16 word" where "VBVA_INFO_HEAP = 4"
definition VBVA_MOUSE_POINTER_SHAPE :: "16 word" where "VBVA_MOUSE_POINTER_SHAPE = 8"
definition VBVA_INFO_CAPS :: "16 word" where "VBVA_INFO_CAPS = 12"
definition VBOX_MOUSE_POINTER_VISIBLE :: "32 word" where "VBOX_MOUSE_POINTER_VISIBLE = 0x1"
definition VBOX_MOUSE_POINTER_SHAPE :: "32 word" where "VBOX_MOUSE_POINTER_SHAPE = 0x4"
definition UINT32_MAX :: "32 word" where "UINT32_MAX = 0xFFFFFFFF"

subsection \<open>The guest command context\<close>

text \<open>
  \<^verbatim>\<open>HGSMIGUESTCOMMANDCONTEXT\<close> together with what its operations act on: the
  heap bookkeeping \<open>heapCtx\<close>, the shared memory \<open>vram\<close>, the state \<open>host\<close> of the
  device behind the port, and the static flag \<open>cOnce\<close> of \<^verbatim>\<open>testQueryConf\<close>.
  \<open>port_writes\<close> lists the writes to \<^verbatim>\<open>pCtx->port\<close>, oldest first, each with the
  shared memory as it stood at that instant, which is what the host finds when
  the doorbell rings.
\<close>
record ('h, 'e) HGSMIGUESTCOMMANDCONTEXT =
  heapCtx :: 'h
  vram :: memory
  host :: 'e
  port_writes :: "(HGSMIOFFSET \<times> memory) list"
  cOnce :: bool

text \<open>
  What the sources call but do not contain: the three heap functions, and the
  device's reaction to a write to the guest port, which processes the command
  and may overwrite shared memory before the write returns.
\<close>
record ('h, 'e) platform =
  HGSMIHeapAlloc :: "'h \<Rightarrow> memory \<Rightarrow> HGSMISIZE \<Rightarrow> 8 word \<Rightarrow> 16 word \<Rightarrow> pointer \<times> 'h \<times> memory"
  HGSMIHeapFree :: "'h \<Rightarrow> memory \<Rightarrow> pointer \<Rightarrow> 'h \<times> memory"
  HGSMIHeapBufferOffset :: "'h \<Rightarrow> pointer \<Rightarrow> HGSMIOFFSET"
  hostCommand :: "'e \<Rightarrow> memory \<Rightarrow> HGSMIOFFSET \<Rightarrow> 'e \<times> memory"

text \<open>\<^verbatim>\<open>p->f = v\<close> and \<^verbatim>\<open>p->f\<close> on a structure in shared memory.\<close>
definition setField ::
  "('h, 'e) HGSMIGUESTCOMMANDCONTEXT \<Rightarrow> pointer \<Rightarrow> field \<Rightarrow> 32 word
     \<Rightarrow> ('h, 'e) HGSMIGUESTCOMMANDCONTEXT" where
  "setField pCtx p f v = pCtx\<lparr>vram := write32 (vram pCtx) (p + offsetof f) v\<rparr>"

definition getField ::
  "('h, 'e) HGSMIGUESTCOMMANDCONTEXT \<Rightarrow> pointer \<Rightarrow> field \<Rightarrow> 32 word" where
  "getField pCtx p f = read32 (vram pCtx) (p + offsetof f)"

text \<open>The build without \<^verbatim>\<open>VBOX_WDDM_MINIPORT\<close>.\<close>
definition VBoxHGSMIBufferAlloc ::
  "('h, 'e) platform \<Rightarrow> ('h, 'e) HGSMIGUESTCOMMANDCONTEXT \<Rightarrow> HGSMISIZE \<Rightarrow> 8 word \<Rightarrow> 16 word
     \<Rightarrow> pointer \<times> ('h, 'e) HGSMIGUESTCOMMANDCONTEXT" where
  "VBoxHGSMIBufferAlloc plat pCtx cbData u8Ch u16Op =
     (case HGSMIHeapAlloc plat (heapCtx pCtx) (vram pCtx) cbData u8Ch u16Op of
        (p, h, m) \<Rightarrow> (p, pCtx\<lparr>heapCtx := h, vram := m\<rparr>))"

definition VBoxHGSMIBufferFree ::
  "('h, 'e) platform \<Rightarrow> ('h, 'e) HGSMIGUESTCOMMANDCONTEXT \<Rightarrow> pointer
     \<Rightarrow> ('h, 'e) HGSMIGUESTCOMMANDCONTEXT" where
  "VBoxHGSMIBufferFree plat pCtx pvBuffer =
     (case HGSMIHeapFree plat (heapCtx pCtx) (vram pCtx) pvBuffer of
        (h, m) \<Rightarrow> pCtx\<lparr>heapCtx := h, vram := m\<rparr>)"

text \<open>\<^verbatim>\<open>VBoxVideoCmnPortWriteUlong(pCtx->port, off)\<close> on the guest port.\<close>
definition VBoxVideoCmnPortWriteUlong ::
  "('h, 'e) platform \<Rightarrow> ('h, 'e) HGSMIGUESTCOMMANDCONTEXT \<Rightarrow> HGSMIOFFSET
     \<Rightarrow> ('h, 'e) HGSMIGUESTCOMMANDCONTEXT" where
  "VBoxVideoCmnPortWriteUlong plat pCtx off =
     (case hostCommand plat (host pCtx) (vram pCtx) off of
        (e, m) \<Rightarrow> pCtx\<lparr>vram := m, host := e,
                        port_writes := port_writes pCtx @ [(off, vram pCtx)]\<rparr>)"

definition VBoxHGSMIBufferSubmit ::
  "('h, 'e) platform \<Rightarrow> ('h, 'e) HGSMIGUESTCOMMANDCONTEXT \<Rightarrow> pointer
     \<Rightarrow> status \<times> ('h, 'e) HGSMIGUESTCOMMANDCONTEXT" where
  "VBoxHGSMIBufferSubmit plat pCtx pvBuffer =
     (let offBuffer = HGSMIHeapBufferOffset plat (heapCtx pCtx) pvBuffer
      in if offBuffer \<noteq> HGSMIOFFSET_VOID
         then (VINF_SUCCESS, VBoxVideoCmnPortWriteUlong plat pCtx offBuffer)
         else (VERR_INVALID_PARAMETER, pCtx))"

definition vboxHGSMIReportFlagsLocation ::
  "('h, 'e) platform \<Rightarrow> ('h, 'e) HGSMIGUESTCOMMANDCONTEXT \<Rightarrow> HGSMIOFFSET
     \<Rightarrow> status \<times> ('h, 'e) HGSMIGUESTCOMMANDCONTEXT" where
  "vboxHGSMIReportFlagsLocation plat pCtx offLoc =
     (case VBoxHGSMIBufferAlloc plat pCtx sizeof_HGSMIBUFFERLOCATION
             HGSMI_CH_HGSMI HGSMI_CC_HOST_FLAGS_LOCATION of
        (p, c1) \<Rightarrow>
          if p \<noteq> NULL
          then (let c2 = setField c1 p offLocation offLoc;
                    c3 = setField c2 p cbLocation sizeof_HGSMIHOSTFLAGS
                in case VBoxHGSMIBufferSubmit plat c3 p of
                     (rc, c4) \<Rightarrow> (rc, VBoxHGSMIBufferFree plat c4 p))
          else (VERR_NO_MEMORY, c1))"

definition vboxHGSMISendCapsInfo ::
  "('h, 'e) platform \<Rightarrow> ('h, 'e) HGSMIGUESTCOMMANDCONTEXT \<Rightarrow> 32 word
     \<Rightarrow> status \<times> ('h, 'e) HGSMIGUESTCOMMANDCONTEXT" where
  "vboxHGSMISendCapsInfo plat pCtx fCaps =
     (case VBoxHGSMIBufferAlloc plat pCtx sizeof_VBVACAPS HGSMI_CH_VBVA VBVA_INFO_CAPS of
        (pCaps, c1) \<Rightarrow>
          if pCaps \<noteq> NULL
          then (let c2 = setField c1 pCaps caps_rc VERR_NOT_IMPLEMENTED;
                    c3 = setField c2 pCaps caps_fCaps fCaps
                in case VBoxHGSMIBufferSubmit plat c3 pCaps of
                     (rc, c4) \<Rightarrow>
                       (if RT_SUCCESS rc then getField c4 pCaps caps_rc else rc,
                        VBoxHGSMIBufferFree plat c4 pCaps))
          else (VERR_NO_MEMORY, c1))"

definition vboxHGSMIReportHostArea ::
  "('h, 'e) platform \<Rightarrow> ('h, 'e) HGSMIGUESTCOMMANDCONTEXT \<Rightarrow> 32 word \<Rightarrow> 32 word
     \<Rightarrow> status \<times> ('h, 'e) HGSMIGUESTCOMMANDCONTEXT" where
  "vboxHGSMIReportHostArea plat pCtx u32AreaOffset u32AreaSize =
     (case VBoxHGSMIBufferAlloc plat pCtx sizeof_VBVAINFOHEAP HGSMI_CH_VBVA VBVA_INFO_HEAP of
        (p, c1) \<Rightarrow>
          if p \<noteq> NULL
          then (let c2 = setField c1 p u32HeapOffset u32AreaOffset;
                    c3 = setField c2 p u32HeapSize u32AreaSize
                in case VBoxHGSMIBufferSubmit plat c3 p of
                     (rc, c4) \<Rightarrow> (rc, VBoxHGSMIBufferFree plat c4 p))
          else (VERR_NO_MEMORY, c1))"

definition VBoxHGSMISendHostCtxInfo ::
  "('h, 'e) platform \<Rightarrow> ('h, 'e) HGSMIGUESTCOMMANDCONTEXT \<Rightarrow> HGSMIOFFSET \<Rightarrow> 32 word
     \<Rightarrow> 32 word \<Rightarrow> 32 word \<Rightarrow> status \<times> ('h, 'e) HGSMIGUESTCOMMANDCONTEXT" where
  "VBoxHGSMISendHostCtxInfo plat pCtx offVRAMFlagsLocation fCaps offVRAMHostArea cbHostArea =
     (case vboxHGSMIReportFlagsLocation plat pCtx offVRAMFlagsLocation of
        (rc1, c1) \<Rightarrow>
          (case (if RT_SUCCESS rc1 \<and> fCaps \<noteq> 0
                 then vboxHGSMISendCapsInfo plat c1 fCaps
                 else (rc1, c1)) of
             (rc2, c2) \<Rightarrow>
               if RT_SUCCESS rc2
               then vboxHGSMIReportHostArea plat c2 offVRAMHostArea cbHostArea
               else (rc2, c2)))"

text \<open>
  The configuration query and its self-test call each other. The last argument
  of the two query functions is the value behind \<^verbatim>\<open>pulValue\<close> at the call; the
  second component of the result is the value behind it at the return.
\<close>
function testQueryConf ::
    "('h, 'e) platform \<Rightarrow> ('h, 'e) HGSMIGUESTCOMMANDCONTEXT
       \<Rightarrow> status \<times> ('h, 'e) HGSMIGUESTCOMMANDCONTEXT"
  and VBoxQueryConfHGSMIDef ::
    "('h, 'e) platform \<Rightarrow> ('h, 'e) HGSMIGUESTCOMMANDCONTEXT \<Rightarrow> 32 word \<Rightarrow> 32 word \<Rightarrow> 32 word
       \<Rightarrow> status \<times> 32 word \<times> ('h, 'e) HGSMIGUESTCOMMANDCONTEXT"
  and VBoxQueryConfHGSMI ::
    "('h, 'e) platform \<Rightarrow> ('h, 'e) HGSMIGUESTCOMMANDCONTEXT \<Rightarrow> 32 word \<Rightarrow> 32 word
       \<Rightarrow> status \<times> 32 word \<times> ('h, 'e) HGSMIGUESTCOMMANDCONTEXT"
where
  "testQueryConf plat pCtx =
     (if cOnce pCtx then (VINF_SUCCESS, pCtx)
      else (case VBoxQueryConfHGSMI plat (pCtx\<lparr>cOnce := True\<rparr>) UINT32_MAX 0 of
              (rc, ulValue, c1) \<Rightarrow>
                if RT_SUCCESS rc \<and> ulValue = UINT32_MAX then (VINF_SUCCESS, c1)
                else if RT_FAILURE rc then (rc, c1\<lparr>cOnce := False\<rparr>)
                else (VERR_INTERNAL_ERROR, c1\<lparr>cOnce := False\<rparr>)))"
| "VBoxQueryConfHGSMIDef plat pCtx idx u32DefValue ulValue =
     (case testQueryConf plat pCtx of
        (rc0, c0) \<Rightarrow>
          if RT_FAILURE rc0 then (rc0, ulValue, c0)
          else (case VBoxHGSMIBufferAlloc plat c0 sizeof_VBVACONF32
                       HGSMI_CH_VBVA VBVA_QUERY_CONF32 of
                  (p, c1) \<Rightarrow>
                    if p \<noteq> NULL
                    then (let c2 = setField c1 p u32Index idx;
                              c3 = setField c2 p u32Value u32DefValue
                          in case VBoxHGSMIBufferSubmit plat c3 p of
                               (rc, c4) \<Rightarrow>
                                 (rc,
                                  if RT_SUCCESS rc then getField c4 p u32Value else ulValue,
                                  VBoxHGSMIBufferFree plat c4 p))
                    else (VERR_NO_MEMORY, ulValue, c1)))"
| "VBoxQueryConfHGSMI plat pCtx idx ulValue =
     VBoxQueryConfHGSMIDef plat pCtx idx UINT32_MAX ulValue"
  by pat_completeness auto
termination
  by (relation "measure (\<lambda>x. case x of
          Inl (plat, pCtx) \<Rightarrow> if cOnce pCtx then 0 else 3
        | Inr (Inl (plat, pCtx, _)) \<Rightarrow> if cOnce pCtx then 1 else 5
        | Inr (Inr (plat, pCtx, _)) \<Rightarrow> if cOnce pCtx then 2 else 6)") auto

text \<open>
  The size of the pointer data, the AND mask and then the XOR mask, as the
  32-bit unsigned arithmetic of the source computes it.
\<close>
definition pointerDataSize :: "32 word \<Rightarrow> 32 word \<Rightarrow> 32 word" where
  "pointerDataSize cWidth cHeight =
     ((((cWidth + 7) div 8) * cHeight + 3) AND NOT 3) + cWidth * 4 * cHeight"

text \<open>
  The payload of an allocation of \<open>cb\<close> bytes at \<open>p\<close> is the bytes from \<open>p\<close> up to
  \<open>p + cb\<close>. A store that does not lie within them overruns the buffer: the
  driver then writes over whatever follows in video RAM, and a long copy runs
  off the mapping and faults. Such a run has no result in the model; it ends in
  the fault \<open>BufferOverrun\<close>. The setup commands and the configuration query
  store two 32-bit fields into a payload of eight bytes, so they cannot overrun;
  the pointer shape, whose payload size is computed, can.
\<close>
datatype fault = BufferOverrun

definition thenDo :: "fault + 'a \<Rightarrow> ('a \<Rightarrow> fault + 'b) \<Rightarrow> fault + 'b" where
  "thenDo r f = (case r of Inl e \<Rightarrow> Inl e | Inr x \<Rightarrow> f x)"

definition setFieldWithin ::
  "('h, 'e) HGSMIGUESTCOMMANDCONTEXT \<Rightarrow> pointer \<Rightarrow> HGSMISIZE \<Rightarrow> field \<Rightarrow> 32 word
     \<Rightarrow> fault + ('h, 'e) HGSMIGUESTCOMMANDCONTEXT" where
  "setFieldWithin pCtx p cb f v =
     (if offsetof f + 4 \<le> unat cb then Inr (setField pCtx p f v) else Inl BufferOverrun)"

definition memcpyWithin ::
  "('h, 'e) HGSMIGUESTCOMMANDCONTEXT \<Rightarrow> pointer \<Rightarrow> HGSMISIZE \<Rightarrow> field \<Rightarrow> (nat \<Rightarrow> 8 word) \<Rightarrow> nat
     \<Rightarrow> fault + ('h, 'e) HGSMIGUESTCOMMANDCONTEXT" where
  "memcpyWithin pCtx p cb f src n =
     (if offsetof f + n \<le> unat cb
      then Inr (pCtx\<lparr>vram := memcpy (vram pCtx) (p + offsetof f) src n\<rparr>)
      else Inl BufferOverrun)"

text \<open>
  The size handed to the allocator is \<^verbatim>\<open>sizeof(VBVAMOUSEPOINTERSHAPE) + cbData\<close>
  as a 32-bit \<^verbatim>\<open>HGSMISIZE\<close>, so it wraps around with \<open>cbData\<close> close to \<open>2^32\<close>.
\<close>
definition VBoxHGSMIUpdatePointerShape ::
  "('h, 'e) platform \<Rightarrow> ('h, 'e) HGSMIGUESTCOMMANDCONTEXT \<Rightarrow> 32 word \<Rightarrow> 32 word \<Rightarrow> 32 word
     \<Rightarrow> 32 word \<Rightarrow> 32 word \<Rightarrow> (nat \<Rightarrow> 8 word) \<Rightarrow> 32 word
     \<Rightarrow> fault + (status \<times> ('h, 'e) HGSMIGUESTCOMMANDCONTEXT)" where
  "VBoxHGSMIUpdatePointerShape plat pCtx fFlags cHotX cHotY cWidth cHeight pPixels cbLength =
     (let shape = (fFlags AND VBOX_MOUSE_POINTER_SHAPE \<noteq> 0);
          cbData = (if shape then pointerDataSize cWidth cHeight else 0);
          fFlags' = (if shape then fFlags OR VBOX_MOUSE_POINTER_VISIBLE else fFlags);
          cbAlloc = sizeof_VBVAMOUSEPOINTERSHAPE + cbData
      in if cbData > cbLength then Inr (VERR_INVALID_PARAMETER, pCtx)
         else (case VBoxHGSMIBufferAlloc plat pCtx cbAlloc
                      HGSMI_CH_VBVA VBVA_MOUSE_POINTER_SHAPE of
                 (p, c0) \<Rightarrow>
                   if p \<noteq> NULL
                   then
                     thenDo (setFieldWithin c0 p cbAlloc i32Result VINF_SUCCESS) (\<lambda>c1.
                     thenDo (setFieldWithin c1 p cbAlloc fu32Flags fFlags') (\<lambda>c2.
                     thenDo (setFieldWithin c2 p cbAlloc u32HotX cHotX) (\<lambda>c3.
                     thenDo (setFieldWithin c3 p cbAlloc u32HotY cHotY) (\<lambda>c4.
                     thenDo (setFieldWithin c4 p cbAlloc u32Width cWidth) (\<lambda>c5.
                     thenDo (setFieldWithin c5 p cbAlloc u32Height cHeight) (\<lambda>c6.
                     thenDo (if getField c6 p fu32Flags AND VBOX_MOUSE_POINTER_SHAPE \<noteq> 0
                             then memcpyWithin c6 p cbAlloc au8Data pPixels (unat cbData)
                             else Inr c6) (\<lambda>c7.
                       case VBoxHGSMIBufferSubmit plat c7 p of
                         (rc, c8) \<Rightarrow>
                           Inr (if RT_SUCCESS rc then getField c8 p i32Result else rc,
                                VBoxHGSMIBufferFree plat c8 p))))))))
                   else Inr (VERR_NO_MEMORY, c0)))"

subsection \<open>A small platform for concrete runs\<close>

text \<open>
  A bump allocator over the bytes from \<open>0x100\<close> up to \<open>0x200\<close>, with a header of
  16 bytes before each payload, and three hosts: one that leaves memory alone,
  one that stores a success status in the first field of every command, and one
  that spoils the second field of the first command it ever sees.
\<close>
definition exampleAlloc ::
  "nat \<Rightarrow> memory \<Rightarrow> HGSMISIZE \<Rightarrow> 8 word \<Rightarrow> 16 word \<Rightarrow> pointer \<times> nat \<times> memory" where
  "exampleAlloc h m cb ch op =
     (if h + 16 + unat cb \<le> 0x200 then (h + 16, h + 16 + unat cb, m) else (NULL, h, m))"

definition exampleOffset :: "nat \<Rightarrow> pointer \<Rightarrow> HGSMIOFFSET" where
  "exampleOffset h p =
     (if 0x110 \<le> p \<and> p < 0x200 then word_of_nat (p - 16) else HGSMIOFFSET_VOID)"

definition examplePlatform ::
  "(nat \<Rightarrow> memory \<Rightarrow> HGSMIOFFSET \<Rightarrow> nat \<times> memory) \<Rightarrow> (nat, nat) platform" where
  "examplePlatform h =
     \<lparr>HGSMIHeapAlloc = exampleAlloc, HGSMIHeapFree = (\<lambda>hp m p. (hp, m)),
      HGSMIHeapBufferOffset = exampleOffset, hostCommand = h\<rparr>"

definition quietHost :: "nat \<Rightarrow> memory \<Rightarrow> HGSMIOFFSET \<Rightarrow> nat \<times> memory" where
  "quietHost e m off = (Suc e, m)"

definition acceptingHost :: "nat \<Rightarrow> memory \<Rightarrow> HGSMIOFFSET \<Rightarrow> nat \<times> memory" where
  "acceptingHost e m off = (Suc e, write32 m (unat off + 16) VINF_SUCCESS)"

definition flakyHost :: "nat \<Rightarrow> memory \<Rightarrow> HGSMIOFFSET \<Rightarrow> nat \<times> memory" where
  "flakyHost e m off = (Suc e, if e = 0 then write32 m (unat off + 16 + 4) 0 else m)"

definition exampleCtx :: "(nat, nat) HGSMIGUESTCOMMANDCONTEXT" where
  "exampleCtx = \<lparr>heapCtx = 0x100, vram = (\<lambda>_. 0), host = 0, port_writes = [], cOnce = False\<rparr>"

definition exampleHostCtx :: "(unit, unit) HGSMIHOSTCOMMANDCONTEXT" where
  "exampleHostCtx =
     \<lparr>areaCtx = (), channels = (), fHostCmdProcessing = False, port_in = [], port_out = []\<rparr>"

text \<open>
  Two dispatchers: one that refuses every command, and one that refuses while
  the reentrancy guard is set and would wipe the port log if it ever ran
  without it.
\<close>
definition refusingDispatcher :: "(unit, unit) dispatcher" where
  "refusingDispatcher pCtx off = (VERR_NOT_IMPLEMENTED, pCtx)"

definition guardCheckingDispatcher :: "(unit, unit) dispatcher" where
  "guardCheckingDispatcher pCtx off =
     (if fHostCmdProcessing pCtx then (VERR_NOT_IMPLEMENTED, pCtx)
      else (VINF_SUCCESS, pCtx\<lparr>port_out := []\<rparr>))"

section \<open>Properties\<close>

declare testQueryConf.simps [simp del]
declare VBoxQueryConfHGSMIDef.simps [simp del]
declare VBoxQueryConfHGSMI.simps [simp del]

subsection \<open>Memory\<close>

lemma bytes_of_word32:
  "ucast (ucast v :: 8 word) OR push_bit 8 (ucast (ucast (drop_bit 8 v) :: 8 word))
     OR push_bit 16 (ucast (ucast (drop_bit 16 v) :: 8 word))
     OR push_bit 24 (ucast (ucast (drop_bit 24 v) :: 8 word)) = (v :: 32 word)"
  (is "?w = v")
proof (rule bit_word_eqI)
  fix n assume "n < LENGTH(32)"
  then show "bit ?w n = bit v n"
    by (cases "n < 8"; cases "n < 16"; cases "n < 24") (auto simp: bit_simps)
qed

lemma read32_write32_same: "read32 (write32 m a v) a = v"
  by (simp add: read32_def write32_def bytes_of_word32)

lemma read32_write32_other:
  "a + 4 \<le> b \<or> b + 4 \<le> a \<Longrightarrow> read32 (write32 m b v) a = read32 m a"
  by (auto simp: read32_def write32_def)

lemma read32_memcpy_below:
  "a + 4 \<le> dst \<Longrightarrow> read32 (memcpy m dst src n) a = read32 m a"
  by (simp add: read32_def memcpy_def)

lemma RT_SUCCESS_VINF_SUCCESS: "RT_SUCCESS VINF_SUCCESS"
  by (simp add: RT_SUCCESS_def VINF_SUCCESS_def)

lemma RT_FAILURE_codes:
  "RT_FAILURE VERR_INVALID_PARAMETER" "RT_FAILURE VERR_NO_MEMORY"
  "RT_FAILURE VERR_NOT_IMPLEMENTED" "RT_FAILURE VERR_INTERNAL_ERROR"
  by (simp_all add: RT_FAILURE_def RT_SUCCESS_def VERR_INVALID_PARAMETER_def
        VERR_NO_MEMORY_def VERR_NOT_IMPLEMENTED_def VERR_INTERNAL_ERROR_def)

lemma submit_cases:
  "VBoxHGSMIBufferSubmit plat c p =
     (if HGSMIHeapBufferOffset plat (heapCtx c) p \<noteq> HGSMIOFFSET_VOID
      then (VINF_SUCCESS,
            c\<lparr>vram := snd (hostCommand plat (host c) (vram c) (HGSMIHeapBufferOffset plat (heapCtx c) p)),
              host := fst (hostCommand plat (host c) (vram c) (HGSMIHeapBufferOffset plat (heapCtx c) p)),
              port_writes := port_writes c @ [(HGSMIHeapBufferOffset plat (heapCtx c) p, vram c)]\<rparr>)
      else (VERR_INVALID_PARAMETER, c))"
  by (simp add: VBoxHGSMIBufferSubmit_def VBoxVideoCmnPortWriteUlong_def Let_def split: prod.splits)

lemma alloc_fields:
  assumes "VBoxHGSMIBufferAlloc plat c cb ch op = (p, c1)"
  shows "port_writes c1 = port_writes c" "host c1 = host c" "cOnce c1 = cOnce c"
  using assms by (auto simp: VBoxHGSMIBufferAlloc_def split: prod.splits)

lemma free_fields:
  "port_writes (VBoxHGSMIBufferFree plat c p) = port_writes c"
  "host (VBoxHGSMIBufferFree plat c p) = host c"
  "cOnce (VBoxHGSMIBufferFree plat c p) = cOnce c"
  by (auto simp: VBoxHGSMIBufferFree_def split: prod.splits)

lemma setField_fields [simp]:
  "port_writes (setField c p f v) = port_writes c"
  "host (setField c p f v) = host c"
  "heapCtx (setField c p f v) = heapCtx c"
  "cOnce (setField c p f v) = cOnce c"
  "vram (setField c p f v) = write32 (vram c) (p + offsetof f) v"
  by (simp_all add: setField_def)

lemma submit_fields:
  assumes "VBoxHGSMIBufferSubmit plat c p = (rc, c')"
  shows "cOnce c' = cOnce c"
  using assms by (auto simp: submit_cases split: if_splits)

lemmas example_defs =
  examplePlatform_def exampleAlloc_def exampleOffset_def exampleCtx_def
  quietHost_def acceptingHost_def flakyHost_def
  VBoxHGSMIBufferAlloc_def VBoxHGSMIBufferFree_def submit_cases
  sizeof_VBVACAPS_def sizeof_VBVACONF32_def sizeof_HGSMIBUFFERLOCATION_def
  sizeof_VBVAINFOHEAP_def sizeof_VBVAMOUSEPOINTERSHAPE_def
  HGSMIOFFSET_VOID_def NULL_def

lemmas query_simps =
  testQueryConf.simps VBoxQueryConfHGSMIDef.simps VBoxQueryConfHGSMI.simps
  setField_def getField_def UINT32_MAX_def RT_SUCCESS_def RT_FAILURE_def
  VINF_SUCCESS_def VERR_NO_MEMORY_def VERR_INTERNAL_ERROR_def VERR_INVALID_PARAMETER_def
  VERR_NOT_IMPLEMENTED_def

lemmas host_defs =
  exampleHostCtx_def HGSMIHOSTFLAGS_COMMANDS_PENDING_def
  ASMAtomicCmpXchgBool_def ASMAtomicWriteBool_def hgsmiHostCommandQueryProcess_def
  hgsmiGetHostBuffer_def hgsmiHostCmdProcess_def HGSMINotifyHostCmdComplete_def
  HGSMIOFFSET_VOID_def RT_FAILURE_codes refusingDispatcher_def guardCheckingDispatcher_def

subsection \<open>Host commands: dispatch and completion\<close>

text \<open>
  C1. A command taken from the receive port and handed to the dispatcher is
  acknowledged by the core exactly when the dispatch fails: the offset read is
  then appended once to the writes of the completion port, after whatever the
  dispatcher did. When the dispatch succeeds the core adds nothing to what the
  dispatcher left behind.
\<close>
theorem dispatch_failure_acknowledged:
  assumes "port_in pCtx = offBuffer # rest"
    and "offBuffer \<noteq> HGSMIOFFSET_VOID"
    and "HGSMIBufferProcess (pCtx\<lparr>port_in := rest\<rparr>) offBuffer = (rc, pCtx')"
  shows "(RT_FAILURE rc \<longrightarrow>
            hgsmiHostCmdProcess HGSMIBufferProcess (pCtx\<lparr>port_in := rest\<rparr>) offBuffer
              = pCtx'\<lparr>port_out := port_out pCtx' @ [offBuffer]\<rparr>
          \<and> hgsmiHostCommandQueryProcess HGSMIBufferProcess pCtx
              = pCtx'\<lparr>port_out := port_out pCtx' @ [offBuffer]\<rparr>)
       \<and> (RT_SUCCESS rc \<longrightarrow>
            hgsmiHostCmdProcess HGSMIBufferProcess (pCtx\<lparr>port_in := rest\<rparr>) offBuffer = pCtx'
          \<and> hgsmiHostCommandQueryProcess HGSMIBufferProcess pCtx = pCtx')"
  using assms
  by (simp add: hgsmiHostCommandQueryProcess_def hgsmiGetHostBuffer_def
        hgsmiHostCmdProcess_def HGSMINotifyHostCmdComplete_def RT_FAILURE_def)

theorem dispatch_failure_acknowledged_witness:
  "hgsmiHostCommandQueryProcess (\<lambda>c off. (VERR_NOT_IMPLEMENTED, c))
      (exampleHostCtx\<lparr>port_in := [0x40, 0x80]\<rparr>)
     = exampleHostCtx\<lparr>port_in := [0x80], port_out := [0x40]\<rparr>
   \<and> hgsmiHostCommandQueryProcess (\<lambda>c off. (VINF_SUCCESS, c))
      (exampleHostCtx\<lparr>port_in := [0x40, 0x80]\<rparr>)
     = exampleHostCtx\<lparr>port_in := [0x80]\<rparr>"
  using dispatch_failure_acknowledged
          [of "exampleHostCtx\<lparr>port_in := [0x40, 0x80]\<rparr>" "0x40" "[0x80]"
              "\<lambda>c off. (VERR_NOT_IMPLEMENTED, c)" VERR_NOT_IMPLEMENTED
              "exampleHostCtx\<lparr>port_in := [0x80]\<rparr>"]
        dispatch_failure_acknowledged
          [of "exampleHostCtx\<lparr>port_in := [0x40, 0x80]\<rparr>" "0x40" "[0x80]"
              "\<lambda>c off. (VINF_SUCCESS, c)" VINF_SUCCESS
              "exampleHostCtx\<lparr>port_in := [0x80]\<rparr>"]
  by (simp add: exampleHostCtx_def HGSMIOFFSET_VOID_def RT_FAILURE_codes RT_SUCCESS_VINF_SUCCESS)

text \<open>
  C9. Completing a host command writes to the port only when the header of the
  pointer resolves to an offset other than the INVALID sentinel, and then it
  writes that offset once; when the header resolves to the sentinel the context
  comes back unchanged, with no port write.
\<close>
theorem host_cmd_complete_guarded:
  "(ptrToOffset (areaCtx pCtx) (hdrFromData pvMem) \<noteq> HGSMIOFFSET_VOID \<longrightarrow>
      VBoxHGSMIHostCmdComplete hdrFromData ptrToOffset pCtx pvMem
        = pCtx\<lparr>port_out := port_out pCtx @ [ptrToOffset (areaCtx pCtx) (hdrFromData pvMem)]\<rparr>)
   \<and> (ptrToOffset (areaCtx pCtx) (hdrFromData pvMem) = HGSMIOFFSET_VOID \<longrightarrow>
      VBoxHGSMIHostCmdComplete hdrFromData ptrToOffset pCtx pvMem = pCtx)
   \<and> (port_out (VBoxHGSMIHostCmdComplete hdrFromData ptrToOffset pCtx pvMem) \<noteq> port_out pCtx \<longrightarrow>
      ptrToOffset (areaCtx pCtx) (hdrFromData pvMem) \<noteq> HGSMIOFFSET_VOID)"
  by (simp add: VBoxHGSMIHostCmdComplete_def HGSMINotifyHostCmdComplete_def Let_def)

theorem host_cmd_complete_guarded_witness:
  "VBoxHGSMIHostCmdComplete (\<lambda>p. p - 16) (\<lambda>a p. if 0x100 \<le> p \<and> p < 0x200 then word_of_nat p else HGSMIOFFSET_VOID)
      exampleHostCtx 0x120 = exampleHostCtx\<lparr>port_out := [0x110]\<rparr>
   \<and> VBoxHGSMIHostCmdComplete (\<lambda>p. p - 16) (\<lambda>a p. if 0x100 \<le> p \<and> p < 0x200 then word_of_nat p else HGSMIOFFSET_VOID)
      exampleHostCtx 0x300 = exampleHostCtx"
  using host_cmd_complete_guarded
          [of "\<lambda>a p. if 0x100 \<le> p \<and> p < 0x200 then word_of_nat p else HGSMIOFFSET_VOID"
              exampleHostCtx "\<lambda>p. p - 16" "0x120"]
        host_cmd_complete_guarded
          [of "\<lambda>a p. if 0x100 \<le> p \<and> p < 0x200 then word_of_nat p else HGSMIOFFSET_VOID"
              exampleHostCtx "\<lambda>p. p - 16" "0x300"]
  by (simp add: exampleHostCtx_def HGSMIOFFSET_VOID_def)

subsection \<open>The drain loop\<close>

lemma drain_cong:
  assumes "\<And>c off. fHostCmdProcessing c \<Longrightarrow> P c off = Q c off"
  shows "VBoxHGSMIProcessHostQueue P reads pCtx = VBoxHGSMIProcessHostQueue Q reads pCtx"
proof (induction reads arbitrary: pCtx)
  case Nil
  show ?case by simp
next
  case (Cons f reads)
  have q: "hgsmiHostCommandQueryProcess P (c\<lparr>fHostCmdProcessing := True\<rparr>)
         = hgsmiHostCommandQueryProcess Q (c\<lparr>fHostCmdProcessing := True\<rparr>)" for c
    using assms
    by (simp add: hgsmiHostCommandQueryProcess_def hgsmiGetHostBuffer_def hgsmiHostCmdProcess_def
          split: list.splits)
  show ?case using Cons.IH q
    by (simp add: ASMAtomicCmpXchgBool_def)
qed

text \<open>
  C2, as stated, fails. The flags word is read three times and shows pending
  commands twice; the first read of the port yields the INVALID sentinel. The
  run does not stop there: it reads the port again, gets \<open>0x40\<close>, dispatches it
  and, the dispatch failing, acknowledges it on the port.
\<close>
theorem drain_continues_after_void_read:
  "VBoxHGSMIProcessHostQueue refusingDispatcher [1, 1, 0]
     (exampleHostCtx\<lparr>port_in := [HGSMIOFFSET_VOID, 0x40]\<rparr>)
   = Some (exampleHostCtx\<lparr>port_in := [], port_out := [0x40]\<rparr>)"
  by (simp add: host_defs)

text \<open>
  C2, amended. When a read of the receive port yields the INVALID sentinel,
  that pass of the loop dispatches nothing and writes nothing to the port: the
  context is the one the read left, with the guard released. The loop then
  goes on to the next read of the flags word, exactly as a drain started on
  that context with the remaining flag values; it returns once the flags word
  no longer shows pending commands, and reads the port again while it does.
\<close>
theorem void_read_skips_dispatch:
  assumes "u32HostFlags AND HGSMIHOSTFLAGS_COMMANDS_PENDING \<noteq> 0"
    and "\<not> fHostCmdProcessing pCtx"
    and "hgsmiGetHostBuffer pCtx = (HGSMIOFFSET_VOID, pCtx1)"
  shows "hgsmiHostCommandQueryProcess P pCtx = pCtx1
       \<and> port_out pCtx1 = port_out pCtx
       \<and> \<not> fHostCmdProcessing pCtx1
       \<and> VBoxHGSMIProcessHostQueue P (u32HostFlags # reads) pCtx
           = VBoxHGSMIProcessHostQueue P reads pCtx1"
proof -
  have g: "hgsmiGetHostBuffer (pCtx\<lparr>fHostCmdProcessing := True\<rparr>)
             = (HGSMIOFFSET_VOID, pCtx1\<lparr>fHostCmdProcessing := True\<rparr>)"
    using assms(3) by (auto simp: hgsmiGetHostBuffer_def split: list.splits)
  have q: "hgsmiHostCommandQueryProcess P pCtx = pCtx1"
    using assms(3) by (simp add: hgsmiHostCommandQueryProcess_def)
  have p: "port_out pCtx1 = port_out pCtx" and f: "\<not> fHostCmdProcessing pCtx1"
    using assms(2,3) by (auto simp: hgsmiGetHostBuffer_def split: list.splits)
  have "pCtx1\<lparr>fHostCmdProcessing := False\<rparr> = pCtx1" using f by simp
  then have "VBoxHGSMIProcessHostQueue P (u32HostFlags # reads) pCtx
           = VBoxHGSMIProcessHostQueue P reads pCtx1"
    using assms(1,2) g
    by (simp add: ASMAtomicCmpXchgBool_def ASMAtomicWriteBool_def hgsmiHostCommandQueryProcess_def)
  with q p f show ?thesis by simp
qed

theorem void_read_skips_dispatch_witness:
  "(1 :: 32 word) AND HGSMIHOSTFLAGS_COMMANDS_PENDING \<noteq> 0
   \<and> \<not> fHostCmdProcessing (exampleHostCtx\<lparr>port_in := [HGSMIOFFSET_VOID, 0x40]\<rparr>)
   \<and> hgsmiGetHostBuffer (exampleHostCtx\<lparr>port_in := [HGSMIOFFSET_VOID, 0x40]\<rparr>)
       = (HGSMIOFFSET_VOID, exampleHostCtx\<lparr>port_in := [0x40]\<rparr>)
   \<and> VBoxHGSMIProcessHostQueue refusingDispatcher [1, 1, 0]
        (exampleHostCtx\<lparr>port_in := [HGSMIOFFSET_VOID, 0x40]\<rparr>)
       = VBoxHGSMIProcessHostQueue refusingDispatcher [1, 0] (exampleHostCtx\<lparr>port_in := [0x40]\<rparr>)
   \<and> VBoxHGSMIProcessHostQueue refusingDispatcher [1, 0]
        (exampleHostCtx\<lparr>port_in := [HGSMIOFFSET_VOID, 0x40]\<rparr>)
       = Some (exampleHostCtx\<lparr>port_in := [0x40]\<rparr>)"
  using void_read_skips_dispatch
          [of 1 "exampleHostCtx\<lparr>port_in := [HGSMIOFFSET_VOID, 0x40]\<rparr>"
              "exampleHostCtx\<lparr>port_in := [0x40]\<rparr>" refusingDispatcher "[1, 0]"]
        void_read_skips_dispatch
          [of 1 "exampleHostCtx\<lparr>port_in := [HGSMIOFFSET_VOID, 0x40]\<rparr>"
              "exampleHostCtx\<lparr>port_in := [0x40]\<rparr>" refusingDispatcher "[0]"]
  by (simp add: host_defs)

text \<open>
  C5. With commands pending, a drain that finds the guard already set returns
  at once with the context untouched: nothing is read from the port and nothing
  is dispatched. A drain that takes the guard runs one query-and-process step
  on the context with the guard set, clears the guard, and only then goes on to
  the next read of the flags word. The dispatcher is never run with the guard
  clear: what a dispatcher would do without the guard has no influence on the
  drain.
\<close>
theorem reentrancy_guard:
  assumes "u32HostFlags AND HGSMIHOSTFLAGS_COMMANDS_PENDING \<noteq> 0"
  shows "(fHostCmdProcessing pCtx \<longrightarrow>
           VBoxHGSMIProcessHostQueue P (u32HostFlags # reads) pCtx = Some pCtx)
       \<and> (\<not> fHostCmdProcessing pCtx \<longrightarrow>
           \<not> fHostCmdProcessing
               ((hgsmiHostCommandQueryProcess P (pCtx\<lparr>fHostCmdProcessing := True\<rparr>))
                  \<lparr>fHostCmdProcessing := False\<rparr>)
         \<and> VBoxHGSMIProcessHostQueue P (u32HostFlags # reads) pCtx
             = VBoxHGSMIProcessHostQueue P reads
                 ((hgsmiHostCommandQueryProcess P (pCtx\<lparr>fHostCmdProcessing := True\<rparr>))
                    \<lparr>fHostCmdProcessing := False\<rparr>))
       \<and> ((\<forall>c off. fHostCmdProcessing c \<longrightarrow> P c off = Q c off) \<longrightarrow>
           VBoxHGSMIProcessHostQueue P (u32HostFlags # reads) pCtx
             = VBoxHGSMIProcessHostQueue Q (u32HostFlags # reads) pCtx)"
proof (intro conjI impI)
  assume "\<forall>c off. fHostCmdProcessing c \<longrightarrow> P c off = Q c off"
  then show "VBoxHGSMIProcessHostQueue P (u32HostFlags # reads) pCtx
             = VBoxHGSMIProcessHostQueue Q (u32HostFlags # reads) pCtx"
    by (intro drain_cong) simp
qed (use assms in \<open>simp_all add: ASMAtomicCmpXchgBool_def ASMAtomicWriteBool_def\<close>)

theorem reentrancy_guard_witness:
  "(1 :: 32 word) AND HGSMIHOSTFLAGS_COMMANDS_PENDING \<noteq> 0
   \<and> VBoxHGSMIProcessHostQueue refusingDispatcher [1, 0]
        (exampleHostCtx\<lparr>fHostCmdProcessing := True, port_in := [0x40]\<rparr>)
       = Some (exampleHostCtx\<lparr>fHostCmdProcessing := True, port_in := [0x40]\<rparr>)
   \<and> VBoxHGSMIProcessHostQueue refusingDispatcher [1, 0] (exampleHostCtx\<lparr>port_in := [0x40]\<rparr>)
       = Some (exampleHostCtx\<lparr>port_in := [], port_out := [0x40]\<rparr>)
   \<and> VBoxHGSMIProcessHostQueue guardCheckingDispatcher [1, 0] (exampleHostCtx\<lparr>port_in := [0x40]\<rparr>)
       = VBoxHGSMIProcessHostQueue refusingDispatcher [1, 0] (exampleHostCtx\<lparr>port_in := [0x40]\<rparr>)"
  using reentrancy_guard
          [of 1 "exampleHostCtx\<lparr>fHostCmdProcessing := True, port_in := [0x40]\<rparr>"
              refusingDispatcher "[0]" guardCheckingDispatcher]
        reentrancy_guard
          [of 1 "exampleHostCtx\<lparr>port_in := [0x40]\<rparr>"
              refusingDispatcher "[0]" guardCheckingDispatcher]
  by (simp add: host_defs)


subsection \<open>Guest commands: submission\<close>

text \<open>
  C3. When the heap resolves the buffer to an offset other than the INVALID
  sentinel, the submission returns \<open>VINF_SUCCESS\<close> and adds exactly one write,
  of that offset, to the doorbell port. When the heap answers with the
  sentinel, it returns \<open>VERR_INVALID_PARAMETER\<close> and leaves the context as it
  was: no doorbell write.
\<close>
theorem buffer_submit:
  "(HGSMIHeapBufferOffset plat (heapCtx pCtx) pvBuffer \<noteq> HGSMIOFFSET_VOID \<longrightarrow>
      fst (VBoxHGSMIBufferSubmit plat pCtx pvBuffer) = VINF_SUCCESS
    \<and> port_writes (snd (VBoxHGSMIBufferSubmit plat pCtx pvBuffer))
        = port_writes pCtx @ [(HGSMIHeapBufferOffset plat (heapCtx pCtx) pvBuffer, vram pCtx)])
   \<and> (HGSMIHeapBufferOffset plat (heapCtx pCtx) pvBuffer = HGSMIOFFSET_VOID \<longrightarrow>
      VBoxHGSMIBufferSubmit plat pCtx pvBuffer = (VERR_INVALID_PARAMETER, pCtx))"
  by (simp add: VBoxHGSMIBufferSubmit_def VBoxVideoCmnPortWriteUlong_def Let_def
        split: prod.splits)

theorem buffer_submit_witness:
  "HGSMIHeapBufferOffset (examplePlatform quietHost) (heapCtx exampleCtx) 0x110 = 0x100
   \<and> fst (VBoxHGSMIBufferSubmit (examplePlatform quietHost) exampleCtx 0x110) = VINF_SUCCESS
   \<and> map fst (port_writes (snd (VBoxHGSMIBufferSubmit (examplePlatform quietHost) exampleCtx 0x110)))
       = [0x100]
   \<and> HGSMIHeapBufferOffset (examplePlatform quietHost) (heapCtx exampleCtx) 0x300
       = HGSMIOFFSET_VOID
   \<and> VBoxHGSMIBufferSubmit (examplePlatform quietHost) exampleCtx 0x300
       = (VERR_INVALID_PARAMETER, exampleCtx)"
  using buffer_submit [of "examplePlatform quietHost" exampleCtx "0x110"]
        buffer_submit [of "examplePlatform quietHost" exampleCtx "0x300"]
  by (simp add: examplePlatform_def exampleOffset_def exampleCtx_def HGSMIOFFSET_VOID_def)

subsection \<open>Setup commands\<close>

text \<open>
  C7. When the allocation fails, the capability report returns
  \<open>VERR_NO_MEMORY\<close>. Otherwise the buffer the host finds at the doorbell holds
  \<open>VERR_NOT_IMPLEMENTED\<close> in its result field, and, the submission having
  succeeded, the report returns whatever that field holds once the host is
  done: the host's code, or \<open>VERR_NOT_IMPLEMENTED\<close> if the host left the field
  alone.
\<close>
theorem caps_info:
  assumes "VBoxHGSMIBufferAlloc plat pCtx sizeof_VBVACAPS HGSMI_CH_VBVA VBVA_INFO_CAPS = (pCaps, c1)"
  shows "(pCaps = NULL \<longrightarrow> vboxHGSMISendCapsInfo plat pCtx fCaps = (VERR_NO_MEMORY, c1))
     \<and> (pCaps \<noteq> NULL \<and> HGSMIHeapBufferOffset plat (heapCtx c1) pCaps \<noteq> HGSMIOFFSET_VOID \<longrightarrow>
          (let off = HGSMIHeapBufferOffset plat (heapCtx c1) pCaps;
               m = write32 (write32 (vram c1) (pCaps + offsetof caps_rc) VERR_NOT_IMPLEMENTED)
                     (pCaps + offsetof caps_fCaps) fCaps;
               m' = snd (hostCommand plat (host c1) m off)
           in port_writes (snd (vboxHGSMISendCapsInfo plat pCtx fCaps)) = port_writes pCtx @ [(off, m)]
            \<and> read32 m (pCaps + offsetof caps_rc) = VERR_NOT_IMPLEMENTED
            \<and> fst (vboxHGSMISendCapsInfo plat pCtx fCaps) = read32 m' (pCaps + offsetof caps_rc)
            \<and> (read32 m' (pCaps + offsetof caps_rc) = read32 m (pCaps + offsetof caps_rc) \<longrightarrow>
                 fst (vboxHGSMISendCapsInfo plat pCtx fCaps) = VERR_NOT_IMPLEMENTED)))"
  using assms alloc_fields[OF assms]
  by (simp add: vboxHGSMISendCapsInfo_def submit_cases Let_def free_fields getField_def
        RT_SUCCESS_VINF_SUCCESS read32_write32_same read32_write32_other)

theorem caps_info_witness:
  "VBoxHGSMIBufferAlloc (examplePlatform quietHost) exampleCtx sizeof_VBVACAPS HGSMI_CH_VBVA
       VBVA_INFO_CAPS = (0x110, exampleCtx\<lparr>heapCtx := 0x118\<rparr>)
   \<and> fst (vboxHGSMISendCapsInfo (examplePlatform acceptingHost) exampleCtx 3) = VINF_SUCCESS
   \<and> fst (vboxHGSMISendCapsInfo (examplePlatform quietHost) exampleCtx 3) = VERR_NOT_IMPLEMENTED
   \<and> fst (vboxHGSMISendCapsInfo (examplePlatform quietHost) (exampleCtx\<lparr>heapCtx := 0x200\<rparr>) 3)
       = VERR_NO_MEMORY"
  using caps_info [of "examplePlatform acceptingHost" exampleCtx "0x110"
                      "exampleCtx\<lparr>heapCtx := 0x118\<rparr>" 3]
        caps_info [of "examplePlatform quietHost" exampleCtx "0x110"
                      "exampleCtx\<lparr>heapCtx := 0x118\<rparr>" 3]
        caps_info [of "examplePlatform quietHost" "exampleCtx\<lparr>heapCtx := 0x200\<rparr>" NULL
                      "exampleCtx\<lparr>heapCtx := 0x200\<rparr>" 3]
  by (simp add: example_defs Let_def read32_write32_same read32_write32_other)

lemma report_flags_location_run:
  assumes "VBoxHGSMIBufferAlloc plat c sizeof_HGSMIBUFFERLOCATION HGSMI_CH_HGSMI
             HGSMI_CC_HOST_FLAGS_LOCATION = (p, a)"
  shows "fst (vboxHGSMIReportFlagsLocation plat c v) =
           (if p = NULL then VERR_NO_MEMORY
            else if HGSMIHeapBufferOffset plat (heapCtx a) p = HGSMIOFFSET_VOID
            then VERR_INVALID_PARAMETER else VINF_SUCCESS)"
    and "port_writes (snd (vboxHGSMIReportFlagsLocation plat c v)) =
           port_writes c @
           (if p \<noteq> NULL \<and> HGSMIHeapBufferOffset plat (heapCtx a) p \<noteq> HGSMIOFFSET_VOID
            then [(HGSMIHeapBufferOffset plat (heapCtx a) p,
                   write32 (write32 (vram a) (p + offsetof offLocation) v)
                     (p + offsetof cbLocation) sizeof_HGSMIHOSTFLAGS)]
            else [])"
  using assms alloc_fields[OF assms]
  by (simp_all add: vboxHGSMIReportFlagsLocation_def submit_cases Let_def free_fields)

lemma send_caps_run:
  assumes "VBoxHGSMIBufferAlloc plat c sizeof_VBVACAPS HGSMI_CH_VBVA VBVA_INFO_CAPS = (p, a)"
  shows "port_writes (snd (vboxHGSMISendCapsInfo plat c v)) =
           port_writes c @
           (if p \<noteq> NULL \<and> HGSMIHeapBufferOffset plat (heapCtx a) p \<noteq> HGSMIOFFSET_VOID
            then [(HGSMIHeapBufferOffset plat (heapCtx a) p,
                   write32 (write32 (vram a) (p + offsetof caps_rc) VERR_NOT_IMPLEMENTED)
                     (p + offsetof caps_fCaps) v)]
            else [])"
  using assms alloc_fields[OF assms]
  by (simp_all add: vboxHGSMISendCapsInfo_def submit_cases Let_def free_fields)

lemma report_host_area_run:
  assumes "VBoxHGSMIBufferAlloc plat c sizeof_VBVAINFOHEAP HGSMI_CH_VBVA VBVA_INFO_HEAP = (p, a)"
  shows "fst (vboxHGSMIReportHostArea plat c v w) =
           (if p = NULL then VERR_NO_MEMORY
            else if HGSMIHeapBufferOffset plat (heapCtx a) p = HGSMIOFFSET_VOID
            then VERR_INVALID_PARAMETER else VINF_SUCCESS)"
    and "port_writes (snd (vboxHGSMIReportHostArea plat c v w)) =
           port_writes c @
           (if p \<noteq> NULL \<and> HGSMIHeapBufferOffset plat (heapCtx a) p \<noteq> HGSMIOFFSET_VOID
            then [(HGSMIHeapBufferOffset plat (heapCtx a) p,
                   write32 (write32 (vram a) (p + offsetof u32HeapOffset) v)
                     (p + offsetof u32HeapSize) w)]
            else [])"
  using assms alloc_fields[OF assms]
  by (simp_all add: vboxHGSMIReportHostArea_def submit_cases Let_def free_fields)


text \<open>
  C8. What the host is sent, and in which order. If the flags location cannot
  be submitted (no buffer, or the heap does not resolve it), the call fails
  with that status and the port sees nothing at all. Otherwise the first
  doorbell write is the flags location, its buffer holding the offset given and
  the size of the host flags. The capability report follows only then, and
  only for non-zero capabilities; the host area follows only if no step before
  it failed, that is, if the capability report was skipped or succeeded. The
  status returned is that of the first step that failed, or of the host area.
\<close>
theorem host_ctx_info_order:
  assumes A1: "VBoxHGSMIBufferAlloc plat pCtx sizeof_HGSMIBUFFERLOCATION HGSMI_CH_HGSMI
                 HGSMI_CC_HOST_FLAGS_LOCATION = (p1, a1)"
    and S1: "vboxHGSMIReportFlagsLocation plat pCtx offVRAMFlagsLocation = (rc1, s1)"
    and A2: "VBoxHGSMIBufferAlloc plat s1 sizeof_VBVACAPS HGSMI_CH_VBVA VBVA_INFO_CAPS = (p2, a2)"
    and S2: "vboxHGSMISendCapsInfo plat s1 fCaps = (rc2, s2)"
    and A3: "VBoxHGSMIBufferAlloc plat (if fCaps = 0 then s1 else s2) sizeof_VBVAINFOHEAP
                 HGSMI_CH_VBVA VBVA_INFO_HEAP = (p3, a3)"
  shows "(let off1 = HGSMIHeapBufferOffset plat (heapCtx a1) p1;
              off2 = HGSMIHeapBufferOffset plat (heapCtx a2) p2;
              off3 = HGSMIHeapBufferOffset plat (heapCtx a3) p3;
              m1 = write32 (write32 (vram a1) (p1 + offsetof offLocation) offVRAMFlagsLocation)
                     (p1 + offsetof cbLocation) sizeof_HGSMIHOSTFLAGS;
              m2 = write32 (write32 (vram a2) (p2 + offsetof caps_rc) VERR_NOT_IMPLEMENTED)
                     (p2 + offsetof caps_fCaps) fCaps;
              m3 = write32 (write32 (vram a3) (p3 + offsetof u32HeapOffset) offVRAMHostArea)
                     (p3 + offsetof u32HeapSize) cbHostArea;
              sent1 = (p1 \<noteq> NULL \<and> off1 \<noteq> HGSMIOFFSET_VOID);
              sent2 = (fCaps \<noteq> 0 \<and> p2 \<noteq> NULL \<and> off2 \<noteq> HGSMIOFFSET_VOID);
              sent3 = ((fCaps = 0 \<or> RT_SUCCESS rc2) \<and> p3 \<noteq> NULL \<and> off3 \<noteq> HGSMIOFFSET_VOID);
              res = VBoxHGSMISendHostCtxInfo plat pCtx offVRAMFlagsLocation fCaps
                      offVRAMHostArea cbHostArea
          in (\<not> sent1 \<longrightarrow>
                fst res = rc1 \<and> RT_FAILURE rc1 \<and> port_writes (snd res) = port_writes pCtx)
           \<and> (sent1 \<longrightarrow>
                port_writes (snd res)
                  = port_writes pCtx @ [(off1, m1)]
                    @ (if sent2 then [(off2, m2)] else [])
                    @ (if sent3 then [(off3, m3)] else [])
              \<and> read32 m1 (p1 + offsetof offLocation) = offVRAMFlagsLocation
              \<and> read32 m1 (p1 + offsetof cbLocation) = sizeof_HGSMIHOSTFLAGS
              \<and> read32 m2 (p2 + offsetof caps_rc) = VERR_NOT_IMPLEMENTED
              \<and> read32 m2 (p2 + offsetof caps_fCaps) = fCaps
              \<and> read32 m3 (p3 + offsetof u32HeapOffset) = offVRAMHostArea
              \<and> read32 m3 (p3 + offsetof u32HeapSize) = cbHostArea
              \<and> fst res = (if fCaps \<noteq> 0 \<and> RT_FAILURE rc2 then rc2
                            else if p3 = NULL then VERR_NO_MEMORY
                            else if off3 = HGSMIOFFSET_VOID then VERR_INVALID_PARAMETER
                            else VINF_SUCCESS)))"
proof -
  note r1 = report_flags_location_run [OF A1, of offVRAMFlagsLocation, unfolded S1, simplified]
  note r2 = send_caps_run [OF A2, of fCaps, unfolded S2, simplified]
  show ?thesis
  proof (cases "fCaps = 0")
    case True
    note r3 = report_host_area_run [OF A3 [unfolded True, simplified], of offVRAMHostArea cbHostArea]
    show ?thesis
      using True r1 r3 S1
      by (simp add: VBoxHGSMISendHostCtxInfo_def Let_def read32_write32_same read32_write32_other RT_SUCCESS_VINF_SUCCESS
            RT_FAILURE_def RT_FAILURE_codes [unfolded RT_FAILURE_def] split: prod.splits)
  next
    case False
    have A3': "VBoxHGSMIBufferAlloc plat s2 sizeof_VBVAINFOHEAP HGSMI_CH_VBVA VBVA_INFO_HEAP = (p3, a3)"
      using A3 False by simp
    note r3 = report_host_area_run [OF A3', of offVRAMHostArea cbHostArea]
    show ?thesis
      using False r1 r2 r3 S1 S2
      by (simp add: VBoxHGSMISendHostCtxInfo_def Let_def read32_write32_same read32_write32_other RT_SUCCESS_VINF_SUCCESS
            RT_FAILURE_def RT_FAILURE_codes [unfolded RT_FAILURE_def] split: prod.splits)
  qed
qed

theorem host_ctx_info_order_witness:
  "fst (VBoxHGSMISendHostCtxInfo (examplePlatform acceptingHost) exampleCtx 0x3F0 3 0x400 0x100)
     = VINF_SUCCESS
   \<and> map fst (port_writes (snd (VBoxHGSMISendHostCtxInfo (examplePlatform acceptingHost) exampleCtx
                                  0x3F0 3 0x400 0x100))) = [0x100, 0x118, 0x130]
   \<and> map (\<lambda>(off, m). (read32 m (unat off + 16), read32 m (unat off + 20)))
        (port_writes (snd (VBoxHGSMISendHostCtxInfo (examplePlatform acceptingHost) exampleCtx
                             0x3F0 3 0x400 0x100)))
       = [(0x3F0, 16), (VERR_NOT_IMPLEMENTED, 3), (0x400, 0x100)]
   \<and> fst (VBoxHGSMISendHostCtxInfo (examplePlatform acceptingHost) exampleCtx 0x3F0 0 0x400 0x100)
     = VINF_SUCCESS
   \<and> map (\<lambda>(off, m). (read32 m (unat off + 16), read32 m (unat off + 20)))
        (port_writes (snd (VBoxHGSMISendHostCtxInfo (examplePlatform acceptingHost) exampleCtx
                             0x3F0 0 0x400 0x100)))
       = [(0x3F0, 16), (0x400, 0x100)]
   \<and> fst (VBoxHGSMISendHostCtxInfo (examplePlatform quietHost) exampleCtx 0x3F0 3 0x400 0x100)
     = VERR_NOT_IMPLEMENTED
   \<and> map fst (port_writes (snd (VBoxHGSMISendHostCtxInfo (examplePlatform quietHost) exampleCtx
                                  0x3F0 3 0x400 0x100))) = [0x100, 0x118]
   \<and> fst (VBoxHGSMISendHostCtxInfo (examplePlatform quietHost) (exampleCtx\<lparr>heapCtx := 0x200\<rparr>)
            0x3F0 3 0x400 0x100) = VERR_NO_MEMORY
   \<and> map fst (port_writes (snd (VBoxHGSMISendHostCtxInfo (examplePlatform quietHost)
                                  (exampleCtx\<lparr>heapCtx := 0x200\<rparr>) 0x3F0 3 0x400 0x100))) = []"
  (is ?runs)
proof -
  have runs: ?runs
    by (simp add: example_defs VBoxHGSMISendHostCtxInfo_def vboxHGSMIReportFlagsLocation_def
          vboxHGSMISendCapsInfo_def vboxHGSMIReportHostArea_def query_simps HGSMI_CH_HGSMI_def
          sizeof_HGSMIHOSTFLAGS_def Let_def read32_write32_same read32_write32_other)
  show ?thesis
    using host_ctx_info_order [where plat = "examplePlatform acceptingHost"
            and pCtx = "exampleCtx"
            and offVRAMFlagsLocation = "0x3F0" and fCaps = 3 and offVRAMHostArea = "0x400"
            and cbHostArea = "0x100",
            OF surjective_pairing surjective_pairing surjective_pairing surjective_pairing
               surjective_pairing]
          host_ctx_info_order [where plat = "examplePlatform acceptingHost"
            and pCtx = "exampleCtx"
            and offVRAMFlagsLocation = "0x3F0" and fCaps = 0 and offVRAMHostArea = "0x400"
            and cbHostArea = "0x100",
            OF surjective_pairing surjective_pairing surjective_pairing surjective_pairing
               surjective_pairing]
          host_ctx_info_order [where plat = "examplePlatform quietHost"
            and pCtx = "exampleCtx"
            and offVRAMFlagsLocation = "0x3F0" and fCaps = 3 and offVRAMHostArea = "0x400"
            and cbHostArea = "0x100",
            OF surjective_pairing surjective_pairing surjective_pairing surjective_pairing
               surjective_pairing]
          host_ctx_info_order [where plat = "examplePlatform quietHost"
            and pCtx = "exampleCtx\<lparr>heapCtx := 0x200\<rparr>"
            and offVRAMFlagsLocation = "0x3F0" and fCaps = 3 and offVRAMHostArea = "0x400"
            and cbHostArea = "0x100",
            OF surjective_pairing surjective_pairing surjective_pairing surjective_pairing
               surjective_pairing]
          runs
    by blast
qed

subsection \<open>The pointer shape\<close>

text \<open>
  The size is computed in 32-bit arithmetic and wraps around: a cursor
  \<open>0x40000000\<close> pixels wide and 4 high has a computed size of \<open>0x20000000\<close> bytes.
\<close>
lemma pointerDataSize_wraps: "pointerDataSize 0x40000000 4 = 0x20000000"
  by (simp add: pointerDataSize_def)

lemma visible_forced:
  "((f :: 32 word) OR VBOX_MOUSE_POINTER_VISIBLE) AND VBOX_MOUSE_POINTER_VISIBLE
     = VBOX_MOUSE_POINTER_VISIBLE"
  by (simp add: word_ao_absorbs)

lemma shape_kept:
  assumes "(f :: 32 word) AND VBOX_MOUSE_POINTER_SHAPE \<noteq> 0"
  shows "(f OR VBOX_MOUSE_POINTER_VISIBLE) AND VBOX_MOUSE_POINTER_SHAPE \<noteq> 0"
proof -
  have "(f OR VBOX_MOUSE_POINTER_VISIBLE) AND VBOX_MOUSE_POINTER_SHAPE
          = f AND VBOX_MOUSE_POINTER_SHAPE"
    by (simp add: word_ao_dist VBOX_MOUSE_POINTER_VISIBLE_def VBOX_MOUSE_POINTER_SHAPE_def)
  then show ?thesis using assms by simp
qed

lemma alloc_size_no_wrap:
  assumes "unat sizeof_VBVAMOUSEPOINTERSHAPE + unat (cb :: 32 word) < 2 ^ 32"
  shows "unat (sizeof_VBVAMOUSEPOINTERSHAPE + cb) = 28 + unat cb"
  using assms unat_add_lem [of sizeof_VBVAMOUSEPOINTERSHAPE cb]
  by (simp add: sizeof_VBVAMOUSEPOINTERSHAPE_def)

lemma alloc_size_wrap:
  assumes "2 ^ 32 \<le> unat sizeof_VBVAMOUSEPOINTERSHAPE + unat (cb :: 32 word)"
  shows "unat (sizeof_VBVAMOUSEPOINTERSHAPE + cb) < 24 + unat cb"
proof -
  have "unat (sizeof_VBVAMOUSEPOINTERSHAPE + cb) = (28 + unat cb) mod 2 ^ 32"
    by (simp add: unat_word_ariths sizeof_VBVAMOUSEPOINTERSHAPE_def)
  moreover have "unat cb < 2 ^ 32" using unsigned_less [of cb] by simp
  moreover have "2 ^ 32 \<le> 28 + unat cb"
    using assms by (simp add: sizeof_VBVAMOUSEPOINTERSHAPE_def)
  ultimately have "unat (sizeof_VBVAMOUSEPOINTERSHAPE + cb) = 28 + unat cb - 2 ^ 32"
    by (simp add: mod_if)
  then show ?thesis using \<open>2 ^ 32 \<le> 28 + unat cb\<close> by simp
qed

text \<open>
  C10. With the shape flag set: when the size computed from width and height
  (\<open>pointerDataSize\<close>, in the 32-bit arithmetic of the source) exceeds the length
  the caller gave, the call returns \<open>VERR_INVALID_PARAMETER\<close> and the context is
  untouched, so no buffer was allocated and no doorbell written. When the size
  fits, the buffer is allocated with a size that did not wrap around, and the
  heap resolves it, the call writes the doorbell once, and the flags field of
  the buffer the host finds there is the caller's flags with the visible bit
  set. When the size fits but the allocation size wrapped around, the stores
  overrun the buffer: the run faults and submits nothing.
\<close>
theorem pointer_shape:
  assumes "fFlags AND VBOX_MOUSE_POINTER_SHAPE \<noteq> 0"
  shows "(cbLength < pointerDataSize cWidth cHeight \<longrightarrow>
            VBoxHGSMIUpdatePointerShape plat pCtx fFlags cHotX cHotY cWidth cHeight pPixels cbLength
              = Inr (VERR_INVALID_PARAMETER, pCtx))
       \<and> (pointerDataSize cWidth cHeight \<le> cbLength
            \<and> unat sizeof_VBVAMOUSEPOINTERSHAPE + unat (pointerDataSize cWidth cHeight) < 2 ^ 32
            \<and> VBoxHGSMIBufferAlloc plat pCtx
                 (sizeof_VBVAMOUSEPOINTERSHAPE + pointerDataSize cWidth cHeight)
                 HGSMI_CH_VBVA VBVA_MOUSE_POINTER_SHAPE = (p, c0)
            \<and> p \<noteq> NULL \<and> HGSMIHeapBufferOffset plat (heapCtx c0) p \<noteq> HGSMIOFFSET_VOID \<longrightarrow>
            (\<exists>rc c' m.
                VBoxHGSMIUpdatePointerShape plat pCtx fFlags cHotX cHotY cWidth cHeight pPixels
                  cbLength = Inr (rc, c')
              \<and> port_writes c' = port_writes pCtx @ [(HGSMIHeapBufferOffset plat (heapCtx c0) p, m)]
              \<and> read32 m (p + offsetof fu32Flags) = fFlags OR VBOX_MOUSE_POINTER_VISIBLE
              \<and> read32 m (p + offsetof fu32Flags) AND VBOX_MOUSE_POINTER_VISIBLE
                  = VBOX_MOUSE_POINTER_VISIBLE))
       \<and> (pointerDataSize cWidth cHeight \<le> cbLength
            \<and> 2 ^ 32 \<le> unat sizeof_VBVAMOUSEPOINTERSHAPE + unat (pointerDataSize cWidth cHeight)
            \<and> VBoxHGSMIBufferAlloc plat pCtx
                 (sizeof_VBVAMOUSEPOINTERSHAPE + pointerDataSize cWidth cHeight)
                 HGSMI_CH_VBVA VBVA_MOUSE_POINTER_SHAPE = (p, c0)
            \<and> p \<noteq> NULL \<longrightarrow>
            VBoxHGSMIUpdatePointerShape plat pCtx fFlags cHotX cHotY cWidth cHeight pPixels cbLength
              = Inl BufferOverrun)"
proof (intro conjI impI)
  assume "cbLength < pointerDataSize cWidth cHeight"
  then show "VBoxHGSMIUpdatePointerShape plat pCtx fFlags cHotX cHotY cWidth cHeight pPixels cbLength
              = Inr (VERR_INVALID_PARAMETER, pCtx)"
    using assms by (simp add: VBoxHGSMIUpdatePointerShape_def Let_def)
next
  assume h: "pointerDataSize cWidth cHeight \<le> cbLength
            \<and> unat sizeof_VBVAMOUSEPOINTERSHAPE + unat (pointerDataSize cWidth cHeight) < 2 ^ 32
            \<and> VBoxHGSMIBufferAlloc plat pCtx
                 (sizeof_VBVAMOUSEPOINTERSHAPE + pointerDataSize cWidth cHeight)
                 HGSMI_CH_VBVA VBVA_MOUSE_POINTER_SHAPE = (p, c0)
            \<and> p \<noteq> NULL \<and> HGSMIHeapBufferOffset plat (heapCtx c0) p \<noteq> HGSMIOFFSET_VOID"
  then have le: "\<not> cbLength < pointerDataSize cWidth cHeight" by (simp add: not_less)
  from h have a: "VBoxHGSMIBufferAlloc plat pCtx
                 (sizeof_VBVAMOUSEPOINTERSHAPE + pointerDataSize cWidth cHeight)
                 HGSMI_CH_VBVA VBVA_MOUSE_POINTER_SHAPE = (p, c0)" by simp
  from h have sz: "unat (sizeof_VBVAMOUSEPOINTERSHAPE + pointerDataSize cWidth cHeight)
                     = 28 + unat (pointerDataSize cWidth cHeight)"
    by (simp add: alloc_size_no_wrap)
  show "\<exists>rc c' m.
                VBoxHGSMIUpdatePointerShape plat pCtx fFlags cHotX cHotY cWidth cHeight pPixels
                  cbLength = Inr (rc, c')
              \<and> port_writes c' = port_writes pCtx @ [(HGSMIHeapBufferOffset plat (heapCtx c0) p, m)]
              \<and> read32 m (p + offsetof fu32Flags) = fFlags OR VBOX_MOUSE_POINTER_VISIBLE
              \<and> read32 m (p + offsetof fu32Flags) AND VBOX_MOUSE_POINTER_VISIBLE
                  = VBOX_MOUSE_POINTER_VISIBLE"
    using assms h le alloc_fields[OF a]
    by (simp add: VBoxHGSMIUpdatePointerShape_def Let_def thenDo_def setFieldWithin_def
          memcpyWithin_def sz submit_cases free_fields getField_def
          read32_write32_same read32_write32_other read32_memcpy_below visible_forced)
next
  assume h: "pointerDataSize cWidth cHeight \<le> cbLength
            \<and> 2 ^ 32 \<le> unat sizeof_VBVAMOUSEPOINTERSHAPE + unat (pointerDataSize cWidth cHeight)
            \<and> VBoxHGSMIBufferAlloc plat pCtx
                 (sizeof_VBVAMOUSEPOINTERSHAPE + pointerDataSize cWidth cHeight)
                 HGSMI_CH_VBVA VBVA_MOUSE_POINTER_SHAPE = (p, c0)
            \<and> p \<noteq> NULL"
  then have le: "\<not> cbLength < pointerDataSize cWidth cHeight" by (simp add: not_less)
  from h have sz: "\<not> 24 + unat (pointerDataSize cWidth cHeight)
                       \<le> unat (sizeof_VBVAMOUSEPOINTERSHAPE + pointerDataSize cWidth cHeight)"
    using alloc_size_wrap [of "pointerDataSize cWidth cHeight"] by simp
  show "VBoxHGSMIUpdatePointerShape plat pCtx fFlags cHotX cHotY cWidth cHeight pPixels cbLength
              = Inl BufferOverrun"
    using assms h le sz shape_kept [OF assms]
    by (simp add: VBoxHGSMIUpdatePointerShape_def Let_def thenDo_def setFieldWithin_def
          memcpyWithin_def getField_def read32_write32_same read32_write32_other)
qed

theorem pointer_shape_witness:
  "(4 :: 32 word) AND VBOX_MOUSE_POINTER_SHAPE \<noteq> 0
   \<and> pointerDataSize 1 1 = 8
   \<and> VBoxHGSMIUpdatePointerShape (examplePlatform quietHost) exampleCtx 4 0 0 1 1 (\<lambda>_. 0xFF) 4
     = Inr (VERR_INVALID_PARAMETER, exampleCtx)
   \<and> VBoxHGSMIBufferAlloc (examplePlatform quietHost) exampleCtx
        (sizeof_VBVAMOUSEPOINTERSHAPE + pointerDataSize 1 1) HGSMI_CH_VBVA VBVA_MOUSE_POINTER_SHAPE
     = (0x110, exampleCtx\<lparr>heapCtx := 0x134\<rparr>)
   \<and> map_sum id (\<lambda>r. (fst r, map fst (port_writes (snd r))))
        (VBoxHGSMIUpdatePointerShape (examplePlatform quietHost) exampleCtx
           4 0 0 1 1 (\<lambda>_. 0xFF) 8) = Inr (VINF_SUCCESS, [0x100])
   \<and> map_sum id (\<lambda>r. read32 (snd (last (port_writes (snd r)))) (0x110 + offsetof fu32Flags))
        (VBoxHGSMIUpdatePointerShape (examplePlatform quietHost) exampleCtx
           4 0 0 1 1 (\<lambda>_. 0xFF) 8) = Inr 5
   \<and> pointerDataSize 0xFFFFFFFF 1 = 0xFFFFFFFC
   \<and> VBoxHGSMIBufferAlloc (examplePlatform quietHost) exampleCtx
        (sizeof_VBVAMOUSEPOINTERSHAPE + pointerDataSize 0xFFFFFFFF 1) HGSMI_CH_VBVA
        VBVA_MOUSE_POINTER_SHAPE
     = (0x110, exampleCtx\<lparr>heapCtx := 0x128\<rparr>)
   \<and> VBoxHGSMIUpdatePointerShape (examplePlatform quietHost) exampleCtx
        4 0 0 0xFFFFFFFF 1 (\<lambda>_. 0xFF) 0xFFFFFFFC = Inl BufferOverrun"
  (is ?runs)
proof -
  have runs: ?runs
    by (simp add: example_defs VBoxHGSMIUpdatePointerShape_def Let_def thenDo_def
          setFieldWithin_def memcpyWithin_def getField_def pointerDataSize_def
          VBOX_MOUSE_POINTER_SHAPE_def VBOX_MOUSE_POINTER_VISIBLE_def VINF_SUCCESS_def
          RT_SUCCESS_def read32_write32_same read32_write32_other read32_memcpy_below)
  show ?thesis
    using pointer_shape [where fFlags = 4 and cbLength = 4 and cWidth = 1 and cHeight = 1
                          and plat = "examplePlatform quietHost" and pCtx = exampleCtx
                          and cHotX = 0 and cHotY = 0 and pPixels = "\<lambda>_. 0xFF"]
          pointer_shape [where fFlags = 4 and cbLength = 8 and cWidth = 1 and cHeight = 1
                          and plat = "examplePlatform quietHost" and pCtx = exampleCtx
                          and cHotX = 0 and cHotY = 0 and pPixels = "\<lambda>_. 0xFF"
                          and p = "0x110" and ?c0.0 = "exampleCtx\<lparr>heapCtx := 0x134\<rparr>"]
          pointer_shape [where fFlags = 4 and cbLength = "0xFFFFFFFC" and cWidth = "0xFFFFFFFF"
                          and cHeight = 1
                          and plat = "examplePlatform quietHost" and pCtx = exampleCtx
                          and cHotX = 0 and cHotY = 0 and pPixels = "\<lambda>_. 0xFF"
                          and p = "0x110" and ?c0.0 = "exampleCtx\<lparr>heapCtx := 0x128\<rparr>"]
          runs
    by blast
qed

subsection \<open>Configuration queries and their self-test\<close>

lemma query_when_tested:
  assumes "cOnce c"
  shows "VBoxQueryConfHGSMIDef plat c idx d ul =
     (case VBoxHGSMIBufferAlloc plat c sizeof_VBVACONF32 HGSMI_CH_VBVA VBVA_QUERY_CONF32 of
        (p, c1) \<Rightarrow>
          if p \<noteq> NULL
          then (case VBoxHGSMIBufferSubmit plat
                       (setField (setField c1 p u32Index idx) p u32Value d) p of
                  (rc, c4) \<Rightarrow>
                    (rc, if RT_SUCCESS rc then getField c4 p u32Value else ul,
                     VBoxHGSMIBufferFree plat c4 p))
          else (VERR_NO_MEMORY, ul, c1))"
  using assms
  by (simp add: VBoxQueryConfHGSMIDef.simps testQueryConf.simps [of plat c]
        RT_FAILURE_def RT_SUCCESS_VINF_SUCCESS Let_def split: prod.splits)

lemma query_keeps_cOnce:
  assumes "cOnce c" and "VBoxQueryConfHGSMIDef plat c idx d ul = (rc, v, c')"
  shows "cOnce c'"
proof -
  obtain p c1 where
    a: "VBoxHGSMIBufferAlloc plat c sizeof_VBVACONF32 HGSMI_CH_VBVA VBVA_QUERY_CONF32 = (p, c1)"
    by (cases "VBoxHGSMIBufferAlloc plat c sizeof_VBVACONF32 HGSMI_CH_VBVA VBVA_QUERY_CONF32")
  have c1: "cOnce c1" using alloc_fields(3)[OF a] assms(1) by simp
  show ?thesis
    using assms(2) c1
    by (auto simp: query_when_tested[OF assms(1)] a free_fields
             split: if_splits prod.splits dest!: submit_fields)
qed

lemma self_test_flag:
  assumes "testQueryConf plat c = (rc, c0)"
  shows "cOnce c0 = RT_SUCCESS rc"
proof (cases "cOnce c")
  case True
  then show ?thesis
    using assms by (auto simp: testQueryConf.simps [of plat c] RT_SUCCESS_VINF_SUCCESS)
next
  case False
  obtain rc1 v c1 where
    q: "VBoxQueryConfHGSMIDef plat (c\<lparr>cOnce := True\<rparr>) UINT32_MAX UINT32_MAX 0 = (rc1, v, c1)"
    by (cases "VBoxQueryConfHGSMIDef plat (c\<lparr>cOnce := True\<rparr>) UINT32_MAX UINT32_MAX 0")
  have "cOnce c1" using query_keeps_cOnce[OF _ q] by simp
  then show ?thesis
    using assms False q
    by (auto simp: testQueryConf.simps [of plat c] VBoxQueryConfHGSMI.simps RT_SUCCESS_VINF_SUCCESS
          RT_FAILURE_def RT_FAILURE_codes [unfolded RT_FAILURE_def] split: if_splits)
qed

lemma query_after_self_test:
  assumes "testQueryConf plat c = (rc, c0)" and "RT_SUCCESS rc"
  shows "VBoxQueryConfHGSMIDef plat c idx d ul = VBoxQueryConfHGSMIDef plat c0 idx d ul"
proof -
  have "cOnce c0" using self_test_flag[OF assms(1)] assms(2) by simp
  then have "testQueryConf plat c0 = (VINF_SUCCESS, c0)"
    by (simp add: testQueryConf.simps [of plat c0])
  then show ?thesis using assms
    by (simp add: VBoxQueryConfHGSMIDef.simps [of plat c] VBoxQueryConfHGSMIDef.simps [of plat c0]
          RT_FAILURE_def RT_SUCCESS_VINF_SUCCESS)
qed

text \<open>
  C6. Take a query whose self-test leaves the context \<open>c0\<close> and whose buffer
  is allocated at \<open>p\<close>. If the self-test passed, the buffer was allocated and the
  heap resolves it, the query is submitted: the buffer the host finds at the
  doorbell holds the index and, in its value field, the caller's default; the
  query returns success, and the value behind the caller's pointer is the value
  field as the host left it, which is the default when the host did not touch
  it (so the sentinel query with default \<open>0xFFFFFFFF\<close> yields \<open>0xFFFFFFFF\<close>).
  In every other case the query fails, nothing is submitted for it, and the
  value behind the caller's pointer stays what it was.
\<close>
theorem query_conf:
  assumes "testQueryConf plat pCtx = (rc0, c0)"
    and "VBoxHGSMIBufferAlloc plat c0 sizeof_VBVACONF32 HGSMI_CH_VBVA VBVA_QUERY_CONF32 = (p, c1)"
  shows "(let res = VBoxQueryConfHGSMIDef plat pCtx idx d ul;
              off = HGSMIHeapBufferOffset plat (heapCtx c1) p;
              m = write32 (write32 (vram c1) (p + offsetof u32Index) idx) (p + offsetof u32Value) d;
              m' = snd (hostCommand plat (host c1) m off)
          in (RT_SUCCESS rc0 \<and> p \<noteq> NULL \<and> off \<noteq> HGSMIOFFSET_VOID \<longrightarrow>
                fst res = VINF_SUCCESS
              \<and> port_writes (snd (snd res)) = port_writes c0 @ [(off, m)]
              \<and> read32 m (p + offsetof u32Index) = idx
              \<and> read32 m (p + offsetof u32Value) = d
              \<and> fst (snd res) = read32 m' (p + offsetof u32Value)
              \<and> (read32 m' (p + offsetof u32Value) = read32 m (p + offsetof u32Value) \<longrightarrow>
                   fst (snd res) = d))
           \<and> (\<not> (RT_SUCCESS rc0 \<and> p \<noteq> NULL \<and> off \<noteq> HGSMIOFFSET_VOID) \<longrightarrow>
                RT_FAILURE (fst res)
              \<and> fst (snd res) = ul
              \<and> port_writes (snd (snd res)) = port_writes c0))"
proof (cases "RT_SUCCESS rc0")
  case False
  then show ?thesis using assms(1)
    by (simp add: VBoxQueryConfHGSMIDef.simps [of plat pCtx] RT_FAILURE_def Let_def)
next
  case True
  have t: "cOnce c0" using self_test_flag[OF assms(1)] True by simp
  have e: "VBoxQueryConfHGSMIDef plat pCtx idx d ul = VBoxQueryConfHGSMIDef plat c0 idx d ul"
    by (rule query_after_self_test[OF assms(1) True])
  show ?thesis
    using True alloc_fields[OF assms(2)]
    by (simp add: e query_when_tested[OF t] assms(2) submit_cases Let_def free_fields getField_def
          RT_SUCCESS_VINF_SUCCESS RT_FAILURE_def RT_FAILURE_codes [unfolded RT_FAILURE_def]
          read32_write32_same read32_write32_other)
qed

theorem query_conf_witness:
  "fst (testQueryConf (examplePlatform quietHost) exampleCtx) = VINF_SUCCESS
   \<and> VBoxHGSMIBufferAlloc (examplePlatform quietHost)
        (snd (testQueryConf (examplePlatform quietHost) exampleCtx))
        sizeof_VBVACONF32 HGSMI_CH_VBVA VBVA_QUERY_CONF32
       = (0x128, (snd (testQueryConf (examplePlatform quietHost) exampleCtx))\<lparr>heapCtx := 0x130\<rparr>)
   \<and> fst (VBoxQueryConfHGSMIDef (examplePlatform quietHost) exampleCtx UINT32_MAX UINT32_MAX 0)
       = VINF_SUCCESS
   \<and> fst (snd (VBoxQueryConfHGSMIDef (examplePlatform quietHost) exampleCtx UINT32_MAX UINT32_MAX 0))
       = 0xFFFFFFFF
   \<and> fst (VBoxQueryConfHGSMIDef (examplePlatform quietHost) (exampleCtx\<lparr>heapCtx := 0x200\<rparr>) 5 7 9)
       = VERR_NO_MEMORY
   \<and> fst (snd (VBoxQueryConfHGSMIDef (examplePlatform quietHost) (exampleCtx\<lparr>heapCtx := 0x200\<rparr>) 5 7 9))
       = 9"
  using query_conf [of "examplePlatform quietHost" exampleCtx
          "fst (testQueryConf (examplePlatform quietHost) exampleCtx)"
          "snd (testQueryConf (examplePlatform quietHost) exampleCtx)"
          "0x128"
          "(snd (testQueryConf (examplePlatform quietHost) exampleCtx))\<lparr>heapCtx := 0x130\<rparr>"
          UINT32_MAX UINT32_MAX 0]
        query_conf [of "examplePlatform quietHost" "exampleCtx\<lparr>heapCtx := 0x200\<rparr>"
          "fst (testQueryConf (examplePlatform quietHost) (exampleCtx\<lparr>heapCtx := 0x200\<rparr>))"
          "snd (testQueryConf (examplePlatform quietHost) (exampleCtx\<lparr>heapCtx := 0x200\<rparr>))"
          NULL
          "snd (testQueryConf (examplePlatform quietHost) (exampleCtx\<lparr>heapCtx := 0x200\<rparr>))"
          5 7 9]
  by (simp add: example_defs query_simps Let_def read32_write32_same read32_write32_other)

text \<open>
  C4, as stated, fails. On a host that spoils the answer to the first command
  it sees, the first query runs the self-test, which fails with
  \<open>VERR_INTERNAL_ERROR\<close>. The second query, made on the context the first one
  left, succeeds: the self-test was run again (second doorbell write) and then
  the query itself was sent to the host (third doorbell write).
\<close>
theorem self_test_retry_counterexample:
  "fst (testQueryConf (examplePlatform flakyHost) exampleCtx) = VERR_INTERNAL_ERROR
   \<and> fst (VBoxQueryConfHGSMIDef (examplePlatform flakyHost) exampleCtx 5 7 0) = VERR_INTERNAL_ERROR
   \<and> fst (VBoxQueryConfHGSMIDef (examplePlatform flakyHost)
           (snd (snd (VBoxQueryConfHGSMIDef (examplePlatform flakyHost) exampleCtx 5 7 0))) 5 7 0)
       = VINF_SUCCESS
   \<and> map fst (port_writes (snd (snd (VBoxQueryConfHGSMIDef (examplePlatform flakyHost)
           (snd (snd (VBoxQueryConfHGSMIDef (examplePlatform flakyHost) exampleCtx 5 7 0))) 5 7 0))))
       = [0x100, 0x118, 0x130]"
  by (simp add: example_defs query_simps Let_def read32_write32_same read32_write32_other)

lemma query_port_writes_extend:
  assumes "cOnce c"
  shows "\<exists>rest. port_writes (snd (snd (VBoxQueryConfHGSMIDef plat c idx d ul)))
                  = port_writes c @ rest"
proof -
  obtain p c1 where
    a: "VBoxHGSMIBufferAlloc plat c sizeof_VBVACONF32 HGSMI_CH_VBVA VBVA_QUERY_CONF32 = (p, c1)"
    by (cases "VBoxHGSMIBufferAlloc plat c sizeof_VBVACONF32 HGSMI_CH_VBVA VBVA_QUERY_CONF32")
  show ?thesis
    using alloc_fields[OF a]
    by (simp add: query_when_tested[OF assms] a submit_cases free_fields)
qed

lemma self_test_run:
  assumes "\<not> cOnce c"
    and a: "VBoxHGSMIBufferAlloc plat (c\<lparr>cOnce := True\<rparr>) sizeof_VBVACONF32 HGSMI_CH_VBVA
              VBVA_QUERY_CONF32 = (p, c1)"
  shows "port_writes (snd (testQueryConf plat c)) =
           port_writes c @
           (if p \<noteq> NULL \<and> HGSMIHeapBufferOffset plat (heapCtx c1) p \<noteq> HGSMIOFFSET_VOID
            then [(HGSMIHeapBufferOffset plat (heapCtx c1) p,
                   write32 (write32 (vram c1) (p + offsetof u32Index) UINT32_MAX)
                     (p + offsetof u32Value) UINT32_MAX)]
            else [])"
    and "\<not> (p \<noteq> NULL \<and> HGSMIHeapBufferOffset plat (heapCtx c1) p \<noteq> HGSMIOFFSET_VOID)
           \<Longrightarrow> RT_FAILURE (fst (testQueryConf plat c))"
  using assms(1) alloc_fields[OF a]
  by (auto simp: testQueryConf.simps [of plat c] VBoxQueryConfHGSMI.simps
        query_when_tested [of "c\<lparr>cOnce := True\<rparr>", simplified] a submit_cases free_fields
        RT_FAILURE_codes RT_SUCCESS_VINF_SUCCESS RT_FAILURE_def
        RT_FAILURE_codes [unfolded RT_FAILURE_def])


text \<open>
  C4, amended. A failed self-test clears its once-flag again. The query that
  ran it fails with the self-test's status, without sending its own request and
  without touching the caller's value. The next query runs the self-test anew:
  when the buffer for the sentinel query is allocated and the heap resolves it,
  the sentinel query is sent to the host once more, as the first doorbell write
  of that query; when it is not, the self-test fails again without a doorbell
  write, and the query with it. When the new run passes, the flag stays set and
  the query proceeds as any query after a passed self-test.
\<close>
theorem failed_self_test_is_retried:
  assumes T: "testQueryConf plat pCtx = (rc, c')" and F: "RT_FAILURE rc"
    and A: "VBoxHGSMIBufferAlloc plat (c'\<lparr>cOnce := True\<rparr>) sizeof_VBVACONF32 HGSMI_CH_VBVA
              VBVA_QUERY_CONF32 = (p, c1)"
  shows "(let off = HGSMIHeapBufferOffset plat (heapCtx c1) p;
              m = write32 (write32 (vram c1) (p + offsetof u32Index) UINT32_MAX)
                    (p + offsetof u32Value) UINT32_MAX;
              retry = testQueryConf plat c';
              nxt = VBoxQueryConfHGSMIDef plat c' idx d ul
          in \<not> cOnce c'
           \<and> VBoxQueryConfHGSMIDef plat pCtx idx d ul = (rc, ul, c')
           \<and> (p \<noteq> NULL \<and> off \<noteq> HGSMIOFFSET_VOID \<longrightarrow>
                port_writes (snd retry) = port_writes c' @ [(off, m)]
              \<and> read32 m (p + offsetof u32Index) = UINT32_MAX
              \<and> read32 m (p + offsetof u32Value) = UINT32_MAX
              \<and> (\<exists>rest. port_writes (snd (snd nxt)) = port_writes c' @ [(off, m)] @ rest))
           \<and> (\<not> (p \<noteq> NULL \<and> off \<noteq> HGSMIOFFSET_VOID) \<longrightarrow>
                RT_FAILURE (fst retry)
              \<and> port_writes (snd retry) = port_writes c'
              \<and> nxt = (fst retry, ul, snd retry))
           \<and> (RT_SUCCESS (fst retry) \<longrightarrow>
                cOnce (snd retry)
              \<and> nxt = VBoxQueryConfHGSMIDef plat (snd retry) idx d ul))"
proof -
  define off where "off = HGSMIHeapBufferOffset plat (heapCtx c1) p"
  define m where "m = write32 (write32 (vram c1) (p + offsetof u32Index) UINT32_MAX)
                    (p + offsetof u32Value) UINT32_MAX"
  define retry where "retry = testQueryConf plat c'"
  define nxt where "nxt = VBoxQueryConfHGSMIDef plat c' idx d ul"
  have n: "\<not> cOnce c'"
    using self_test_flag[OF T] F by (simp add: RT_FAILURE_def)
  have q: "VBoxQueryConfHGSMIDef plat pCtx idx d ul = (rc, ul, c')"
    using T F by (simp add: VBoxQueryConfHGSMIDef.simps [of plat pCtx])
  have r: "retry = (fst retry, snd retry)" by simp
  have pw: "port_writes (snd retry) =
              port_writes c' @ (if p \<noteq> NULL \<and> off \<noteq> HGSMIOFFSET_VOID then [(off, m)] else [])"
    unfolding retry_def off_def m_def by (rule self_test_run(1)[OF n A])
  have fl: "\<not> (p \<noteq> NULL \<and> off \<noteq> HGSMIOFFSET_VOID) \<Longrightarrow> RT_FAILURE (fst retry)"
    unfolding retry_def off_def by (rule self_test_run(2)[OF n A])
  have s: "RT_SUCCESS (fst retry) \<Longrightarrow>
            cOnce (snd retry) \<and> nxt = VBoxQueryConfHGSMIDef plat (snd retry) idx d ul"
    unfolding retry_def nxt_def
    using self_test_flag[of plat c' "fst (testQueryConf plat c')" "snd (testQueryConf plat c')"]
          query_after_self_test[of plat c' "fst (testQueryConf plat c')" "snd (testQueryConf plat c')"]
    by simp
  have f: "nxt = (fst retry, ul, snd retry)" if a: "RT_FAILURE (fst retry)"
  proof -
    obtain rc0 c0 where t: "testQueryConf plat c' = (rc0, c0)"
      by (cases "testQueryConf plat c'")
    show ?thesis
      using a t unfolding retry_def nxt_def
      by (simp add: VBoxQueryConfHGSMIDef.simps [of plat c'])
  qed
  have ex: "\<exists>rest. port_writes (snd (snd nxt)) = port_writes (snd retry) @ rest"
  proof (cases "RT_SUCCESS (fst retry)")
    case True
    then show ?thesis
      using s query_port_writes_extend [of "snd retry" plat idx d ul] by simp
  next
    case False
    then show ?thesis using f by (simp add: RT_FAILURE_def)
  qed
  have mem: "read32 m (p + offsetof u32Index) = UINT32_MAX"
            "read32 m (p + offsetof u32Value) = UINT32_MAX"
    unfolding m_def by (simp_all add: read32_write32_same read32_write32_other)
  have "\<not> cOnce c'
           \<and> VBoxQueryConfHGSMIDef plat pCtx idx d ul = (rc, ul, c')
           \<and> (p \<noteq> NULL \<and> off \<noteq> HGSMIOFFSET_VOID \<longrightarrow>
                port_writes (snd retry) = port_writes c' @ [(off, m)]
              \<and> read32 m (p + offsetof u32Index) = UINT32_MAX
              \<and> read32 m (p + offsetof u32Value) = UINT32_MAX
              \<and> (\<exists>rest. port_writes (snd (snd nxt)) = port_writes c' @ [(off, m)] @ rest))
           \<and> (\<not> (p \<noteq> NULL \<and> off \<noteq> HGSMIOFFSET_VOID) \<longrightarrow>
                RT_FAILURE (fst retry)
              \<and> port_writes (snd retry) = port_writes c'
              \<and> nxt = (fst retry, ul, snd retry))
           \<and> (RT_SUCCESS (fst retry) \<longrightarrow>
                cOnce (snd retry)
              \<and> nxt = VBoxQueryConfHGSMIDef plat (snd retry) idx d ul)"
    using n q pw fl s f ex mem by auto
  then show ?thesis
    unfolding off_def m_def retry_def nxt_def Let_def .
qed


theorem failed_self_test_is_retried_witness:
  "RT_FAILURE (fst (testQueryConf (examplePlatform flakyHost) exampleCtx))
   \<and> \<not> cOnce (snd (testQueryConf (examplePlatform flakyHost) exampleCtx))
   \<and> fst (VBoxQueryConfHGSMIDef (examplePlatform flakyHost) exampleCtx 5 7 0) = VERR_INTERNAL_ERROR
   \<and> map fst (port_writes (snd (testQueryConf (examplePlatform flakyHost) exampleCtx))) = [0x100]
   \<and> RT_SUCCESS (fst (testQueryConf (examplePlatform flakyHost)
                         (snd (testQueryConf (examplePlatform flakyHost) exampleCtx))))
   \<and> map fst (port_writes (snd (testQueryConf (examplePlatform flakyHost)
                         (snd (testQueryConf (examplePlatform flakyHost) exampleCtx)))))
       = [0x100, 0x118]
   \<and> cOnce (snd (testQueryConf (examplePlatform flakyHost)
                         (snd (testQueryConf (examplePlatform flakyHost) exampleCtx))))
   \<and> RT_FAILURE (fst (testQueryConf (examplePlatform flakyHost) (exampleCtx\<lparr>heapCtx := 0x1E8\<rparr>)))
   \<and> map fst (port_writes (snd (testQueryConf (examplePlatform flakyHost)
                                  (exampleCtx\<lparr>heapCtx := 0x1E8\<rparr>)))) = [0x1E8]
   \<and> fst (testQueryConf (examplePlatform flakyHost)
           (snd (testQueryConf (examplePlatform flakyHost) (exampleCtx\<lparr>heapCtx := 0x1E8\<rparr>))))
       = VERR_NO_MEMORY
   \<and> map fst (port_writes (snd (testQueryConf (examplePlatform flakyHost)
           (snd (testQueryConf (examplePlatform flakyHost) (exampleCtx\<lparr>heapCtx := 0x1E8\<rparr>))))))
       = [0x1E8]"
  (is ?runs)
proof -
  have runs: ?runs
    by (simp add: example_defs query_simps Let_def read32_write32_same read32_write32_other)
  have f1: "RT_FAILURE (fst (testQueryConf (examplePlatform flakyHost) exampleCtx))"
    and f2: "RT_FAILURE (fst (testQueryConf (examplePlatform flakyHost)
                                (exampleCtx\<lparr>heapCtx := 0x1E8\<rparr>)))"
    using runs by blast+
  show ?thesis
    using failed_self_test_is_retried [OF surjective_pairing f1 surjective_pairing, of 5 7 0]
          failed_self_test_is_retried [OF surjective_pairing f2 surjective_pairing, of 5 7 0]
          runs
    by blast
qed

end
